theory Spec2Isabelle
  imports Complex_Main
begin

section \<open>Python effects: exceptions and printed lines\<close>

text \<open>
  The backend is Python. A raised exception is a value carrying its message
  (\<open>str(e)\<close>). Every \<open>print\<close> of the source is a constructor of \<open>log_msg\<close>,
  holding the values the f-string interpolates. Python floats are modelled as
  reals (exact arithmetic), Python ints as \<open>int\<close>.
\<close>

datatype py_exception = Exception (message: string)

datatype log_msg =
    CalculatedScale real            \<comment> \<open>Calculated scale: .. pixels per meter\<close>
  | WarnThicknessZero               \<comment> \<open>Warning: Wall thickness is 0. Using 1:1 pixel/meter scale.\<close>
  | WarnSkipWall                    \<comment> \<open>Warning: Skipping invalid or empty wall polygon.\<close>
  | WarnExtrudeWall py_exception    \<comment> \<open>Warning: Could not extrude wall polygon. Error: ..\<close>
  | ErrNoWallMeshes                 \<comment> \<open>ERROR: No valid wall meshes created.\<close>
  | WarnSkipDoor                    \<comment> \<open>Warning: Skipping invalid or empty door geometry.\<close>
  | WarnExtrudeDoor py_exception    \<comment> \<open>Warning: Could not extrude door polygon. Error: ..\<close>
  | WarnSkipWindow                  \<comment> \<open>Warning: Skipping invalid or empty window geometry.\<close>
  | WarnExtrudeWindow py_exception  \<comment> \<open>Warning: Could not extrude window polygon. Error: ..\<close>
  | InfoSubtracting nat nat         \<comment> \<open>Subtracting .. doors and .. windows from walls...\<close>
  | WarnDifferenceEmpty             \<comment> \<open>Warning: Boolean difference resulted in an empty mesh. Returning original wall mesh.\<close>
  | WarnDifferenceFailed py_exception \<comment> \<open>Warning: Boolean difference failed: ... Returning original wall mesh.\<close>
  | InfoBuilt nat                   \<comment> \<open>Successfully built 3D model with .. vertices.\<close>
  | InfoLoading string              \<comment> \<open>[INFO] feature_extraction: Loading image: ..\<close>
  | ErrCouldNotRead string          \<comment> \<open>[ERROR] feature_extraction: Could not read image at path: ..\<close>
  | DebugSaved string               \<comment> \<open>[DEBUG] Saved cleaned image to: ..\<close>
  | WarnDebugWrite py_exception     \<comment> \<open>[WARN] Could not write debug image: ..\<close>
  | InfoFoundContours nat           \<comment> \<open>[INFO] feature_extraction: Found .. initial contours.\<close>
  | WarnCouldNotFix                 \<comment> \<open>[WARN] Could not fix invalid polygon with area ..\<close>
  | WarnContour py_exception        \<comment> \<open>Warning: Could not create/process polygon from contour points. Error: ..\<close>
  | InfoReturning nat               \<comment> \<open>[INFO] feature_extraction: Returning .. valid Shapely wall polygons.\<close>
  | WarnNoValidWalls                \<comment> \<open>[WARN] No valid wall polygons found. Creating a fallback bounding box.\<close>
  | InfoFallback                    \<comment> \<open>[INFO] Returning fallback bounding box.\<close>
  | ErrFallback                     \<comment> \<open>[ERROR] Could not create fallback bounding box.\<close>
  | ErrUnexpected py_exception      \<comment> \<open>[ERROR] feature_extraction: An unexpected error occurred: ..\<close>
  | InfoMatching string             \<comment> \<open>[INFO] find_features: Matching '..'...\<close>
  | ErrReadMain string              \<comment> \<open>[ERROR] find_features: Could not read main image: ..\<close>
  | ErrReadTemplate string          \<comment> \<open>[ERROR] find_features: Could not read template image: ..\<close>
  | InfoFoundMatches nat string     \<comment> \<open>[INFO] find_features: Found .. matches for '..'.\<close>
  | ErrMatching py_exception        \<comment> \<open>[ERROR] find_features: An error occurred during template matching: ..\<close>
  | SavedFile string                \<comment> \<open>Saved file: ..\<close>
  | CouldNotSave py_exception       \<comment> \<open>Could not save file: ..\<close>
  | ErrNoWallFeatures               \<comment> \<open>[ERROR] No wall features detected.\<close>
  | InfoFoundWalls nat              \<comment> \<open>[INFO] Found .. wall polygons.\<close>
  | InfoFoundDoors nat              \<comment> \<open>[INFO] Found .. doors.\<close>
  | InfoFoundWindows nat            \<comment> \<open>[INFO] Found .. windows.\<close>
  | ConversionSuccessful string     \<comment> \<open>Conversion successful. Model saved to '..'\<close>
  | ErrConversion string            \<comment> \<open>An error occurred during conversion: ..\<close>

text \<open>
  A computation yields either the exception it raised or its value, together
  with the lines it printed, in order.
\<close>

type_synonym 'a comp = "(py_exception + 'a) \<times> log_msg list"

definition ret :: "'a \<Rightarrow> 'a comp" where
  "ret x = (Inr x, [])"

definition py_print :: "log_msg \<Rightarrow> unit comp" where
  "py_print m = (Inr (), [m])"

text \<open>
  The standard output, as far as the encoding of a caller-supplied text goes:
  for a text, the exception that writing it raises (a \<open>UnicodeEncodeError\<close>
  for a path the stream cannot encode), or \<open>None\<close> when it is written. A
  line that interpolates a caller-supplied path is printed with
  \<open>print_text\<close> and can raise; the other lines carry fixed text, numbers
  and the messages of exceptions, and are written.
\<close>

type_synonym stdout = "string \<Rightarrow> py_exception option"

definition print_text :: "stdout \<Rightarrow> string \<Rightarrow> log_msg \<Rightarrow> unit comp" where
  "print_text out s m = (case out s of None \<Rightarrow> py_print m | Some e \<Rightarrow> (Inl e, []))"

text \<open>A call into a library, which returns a value or raises.\<close>

definition call :: "py_exception + 'a \<Rightarrow> 'a comp" where
  "call r = (r, [])"

text \<open>Sequencing: an exception of the first part skips the rest.\<close>

definition and_then :: "'a comp \<Rightarrow> ('a \<Rightarrow> 'b comp) \<Rightarrow> 'b comp" where
  "and_then c f =
     (case fst c of
        Inl e \<Rightarrow> (Inl e, snd c)
      | Inr x \<Rightarrow> (fst (f x), snd c @ snd (f x)))"

text \<open>\<open>try: c  except Exception as e: h e\<close>\<close>

definition try_except :: "'a comp \<Rightarrow> (py_exception \<Rightarrow> 'a comp) \<Rightarrow> 'a comp" where
  "try_except c h =
     (case fst c of
        Inl e \<Rightarrow> (fst (h e), snd c @ snd (h e))
      | Inr x \<Rightarrow> c)"

section \<open>Shapely geometries\<close>

type_synonym point = "real \<times> real"

datatype geom = Polygon (coords: "point list") | MultiPolygon (geoms: "geom list")

text \<open>\<open>is_empty\<close>: a geometry without any coordinate.\<close>

fun is_empty :: "geom \<Rightarrow> bool" where
  "is_empty (Polygon ps) = (ps = [])"
| "is_empty (MultiPolygon gs) = list_all is_empty gs"

text \<open>
  Validity and the zero-buffer repair are computed by GEOS; they are
  parameters of the model.
\<close>

record shapely =
  is_valid :: "geom \<Rightarrow> bool"
  buffer0 :: "geom \<Rightarrow> py_exception + geom"

section \<open>Trimesh meshes\<close>

type_synonym vertex = "real \<times> real \<times> real"

record mesh =
  vertices :: "vertex list"
  faces :: "(nat \<times> nat \<times> nat) list"

text \<open>
  \<open>trimesh.Trimesh()\<close> is the mesh without data, and \<open>is_empty\<close> holds of
  a mesh that has none. Concatenation, scaling and translation act on the
  vertex list.
\<close>

definition Trimesh :: mesh where
  "Trimesh = \<lparr>vertices = [], faces = []\<rparr>"

definition mesh_is_empty :: "mesh \<Rightarrow> bool" where
  "mesh_is_empty m = (vertices m = [] \<and> faces m = [])"

definition append_mesh :: "mesh \<Rightarrow> mesh \<Rightarrow> mesh" where
  "append_mesh a b =
     \<lparr>vertices = vertices a @ vertices b,
      faces = faces a @
        map (\<lambda>(i, j, k). (i + length (vertices a), j + length (vertices a),
                           k + length (vertices a))) (faces b)\<rparr>"

text \<open>\<open>trimesh.util.concatenate\<close>: vertices appended, face indices shifted.\<close>

definition concatenate :: "mesh list \<Rightarrow> mesh" where
  "concatenate ms = foldl append_mesh Trimesh ms"

definition apply_scale :: "real \<Rightarrow> mesh \<Rightarrow> mesh" where
  "apply_scale s m = m\<lparr>vertices := map (\<lambda>(x, y, z). (x * s, y * s, z * s)) (vertices m)\<rparr>"

definition apply_translation :: "vertex \<Rightarrow> mesh \<Rightarrow> mesh" where
  "apply_translation t m =
     m\<lparr>vertices := map (\<lambda>(x, y, z). (x + fst t, y + fst (snd t), z + snd (snd t))) (vertices m)\<rparr>"

text \<open>
  Extrusion, the solid boolean difference and the export to a file are done
  by the mesh library and its boolean engine; each may raise.
\<close>

record trimesh =
  extrude_polygon :: "geom \<Rightarrow> real \<Rightarrow> py_exception + mesh"
  difference :: "mesh \<Rightarrow> mesh \<Rightarrow> py_exception + mesh"
  export :: "mesh \<Rightarrow> string \<Rightarrow> py_exception + unit"

section \<open>geometry_engine.py\<close>

definition REAL_WORLD_WALL_THICKNESS_METERS :: real where
  "REAL_WORLD_WALL_THICKNESS_METERS = 0.2"

definition REAL_WORLD_DOOR_HEIGHT_METERS :: real where
  "REAL_WORLD_DOOR_HEIGHT_METERS = 2.1"

definition REAL_WORLD_WINDOW_HEIGHT_METERS :: real where
  "REAL_WORLD_WINDOW_HEIGHT_METERS = 1.2"

definition REAL_WORLD_WINDOW_SILL_HEIGHT_METERS :: real where
  "REAL_WORLD_WINDOW_SILL_HEIGHT_METERS = 0.9"

text \<open>The scaling logic of \<open>build_3d_model\<close>: the value of \<open>scale_factor\<close>.\<close>

definition scale_factor :: "int \<Rightarrow> real" where
  "scale_factor wall_thickness_pixels =
     (if wall_thickness_pixels > 0
      then real_of_int wall_thickness_pixels / REAL_WORLD_WALL_THICKNESS_METERS
      else 1.0)"

definition scaling_logic :: "int \<Rightarrow> real comp" where
  "scaling_logic wall_thickness_pixels =
     (if wall_thickness_pixels > 0
      then and_then (py_print (CalculatedScale (scale_factor wall_thickness_pixels)))
             (\<lambda>_. ret (scale_factor wall_thickness_pixels))
      else and_then (py_print WarnThicknessZero)
             (\<lambda>_. ret (scale_factor wall_thickness_pixels)))"

text \<open>Real-world heights converted to pixel heights.\<close>

definition extrusion_height_pixels :: "real \<Rightarrow> int \<Rightarrow> real" where
  "extrusion_height_pixels wall_height wall_thickness_pixels =
     wall_height * scale_factor wall_thickness_pixels"

definition door_height_pixels :: "int \<Rightarrow> real" where
  "door_height_pixels wall_thickness_pixels =
     REAL_WORLD_DOOR_HEIGHT_METERS * scale_factor wall_thickness_pixels"

definition window_height_pixels :: "int \<Rightarrow> real" where
  "window_height_pixels wall_thickness_pixels =
     REAL_WORLD_WINDOW_HEIGHT_METERS * scale_factor wall_thickness_pixels"

definition window_sill_pixels :: "int \<Rightarrow> real" where
  "window_sill_pixels wall_thickness_pixels =
     REAL_WORLD_WINDOW_SILL_HEIGHT_METERS * scale_factor wall_thickness_pixels"

text \<open>
  One pass of an extrusion loop: a valid, non-empty polygon is extruded and
  its mesh (after \<open>post\<close>) appended; an invalid or empty one is skipped with
  a warning; an exception of the extrusion is caught and printed.
\<close>

definition extrude_one ::
  "shapely \<Rightarrow> trimesh \<Rightarrow> log_msg \<Rightarrow> (py_exception \<Rightarrow> log_msg) \<Rightarrow> (mesh \<Rightarrow> mesh) \<Rightarrow>
   real \<Rightarrow> geom \<Rightarrow> mesh list comp" where
  "extrude_one sh tm skipped failed post height polygon =
     try_except
       (if is_valid sh polygon \<and> \<not> is_empty polygon
        then and_then (call (extrude_polygon tm polygon height)) (\<lambda>m. ret [post m])
        else and_then (py_print skipped) (\<lambda>_. ret []))
       (\<lambda>e. and_then (py_print (failed e)) (\<lambda>_. ret []))"

fun extrude_all ::
  "shapely \<Rightarrow> trimesh \<Rightarrow> log_msg \<Rightarrow> (py_exception \<Rightarrow> log_msg) \<Rightarrow> (mesh \<Rightarrow> mesh) \<Rightarrow>
   real \<Rightarrow> geom list \<Rightarrow> mesh list comp" where
  "extrude_all sh tm skipped failed post height [] = ret []"
| "extrude_all sh tm skipped failed post height (polygon # rest) =
     and_then (extrude_one sh tm skipped failed post height polygon) (\<lambda>ms.
     and_then (extrude_all sh tm skipped failed post height rest) (\<lambda>more.
     ret (ms @ more)))"

text \<open>The wall loop: \<open>all_wall_meshes\<close>.\<close>

definition wall_meshes :: "shapely \<Rightarrow> trimesh \<Rightarrow> geom list \<Rightarrow> real \<Rightarrow> int \<Rightarrow> mesh list comp" where
  "wall_meshes sh tm wall_polygons wall_height wall_thickness_pixels =
     extrude_all sh tm WarnSkipWall WarnExtrudeWall (\<lambda>m. m)
       (extrusion_height_pixels wall_height wall_thickness_pixels) wall_polygons"

text \<open>The door loop, then the window loop: \<open>all_opening_meshes\<close>.\<close>

definition opening_meshes :: "shapely \<Rightarrow> trimesh \<Rightarrow> geom list \<Rightarrow> geom list \<Rightarrow> int \<Rightarrow> mesh list comp" where
  "opening_meshes sh tm door_polygons window_polygons wall_thickness_pixels =
     and_then (extrude_all sh tm WarnSkipDoor WarnExtrudeDoor (\<lambda>m. m)
                 (door_height_pixels wall_thickness_pixels) door_polygons) (\<lambda>doors.
     and_then (extrude_all sh tm WarnSkipWindow WarnExtrudeWindow
                 (apply_translation (0, 0, window_sill_pixels wall_thickness_pixels))
                 (window_height_pixels wall_thickness_pixels) window_polygons) (\<lambda>windows.
     ret (doors @ windows)))"

text \<open>Subtracting the openings from the walls, in pixel space.\<close>

definition subtract_openings ::
  "trimesh \<Rightarrow> mesh \<Rightarrow> mesh list \<Rightarrow> nat \<Rightarrow> nat \<Rightarrow> mesh comp" where
  "subtract_openings tm final_wall_mesh all_opening_meshes n_doors n_windows =
     (if all_opening_meshes \<noteq> []
      then and_then (py_print (InfoSubtracting n_doors n_windows)) (\<lambda>_.
           try_except
             (and_then (call (difference tm final_wall_mesh (concatenate all_opening_meshes)))
                (\<lambda>final_model.
                   if mesh_is_empty final_model
                   then and_then (py_print WarnDifferenceEmpty) (\<lambda>_. ret final_wall_mesh)
                   else ret final_model))
             (\<lambda>e. and_then (py_print (WarnDifferenceFailed e)) (\<lambda>_. ret final_wall_mesh)))
      else ret final_wall_mesh)"

text \<open>Scaling the final model back to real-world meters.\<close>

definition scale_to_meters :: "int \<Rightarrow> mesh \<Rightarrow> mesh" where
  "scale_to_meters wall_thickness_pixels final_model =
     (if scale_factor wall_thickness_pixels > 0
      then apply_scale (1.0 / scale_factor wall_thickness_pixels) final_model
      else final_model)"

definition build_3d_model ::
  "shapely \<Rightarrow> trimesh \<Rightarrow> geom list \<Rightarrow> geom list \<Rightarrow> geom list \<Rightarrow> real \<Rightarrow> int \<Rightarrow> mesh comp" where
  "build_3d_model sh tm wall_polygons door_polygons window_polygons wall_height wall_thickness_pixels =
     and_then (scaling_logic wall_thickness_pixels) (\<lambda>_.
     and_then (wall_meshes sh tm wall_polygons wall_height wall_thickness_pixels) (\<lambda>all_wall_meshes.
     if all_wall_meshes = []
     then and_then (py_print ErrNoWallMeshes) (\<lambda>_. ret Trimesh)
     else
       and_then (opening_meshes sh tm door_polygons window_polygons wall_thickness_pixels)
         (\<lambda>all_opening_meshes.
       and_then (subtract_openings tm (concatenate all_wall_meshes) all_opening_meshes
                   (length door_polygons) (length window_polygons)) (\<lambda>final_model.
       and_then (py_print (InfoBuilt (length (vertices
                   (scale_to_meters wall_thickness_pixels final_model))))) (\<lambda>_.
       ret (scale_to_meters wall_thickness_pixels final_model))))))"

text \<open>The height of a mesh: the extent of its bounding box along z.\<close>

definition z_values :: "mesh \<Rightarrow> real list" where
  "z_values m = map (\<lambda>(x, y, z). z) (vertices m)"

definition mesh_height :: "mesh \<Rightarrow> real" where
  "mesh_height m = Max (set (z_values m)) - Min (set (z_values m))"


section \<open>OpenCV and pathlib\<close>

text \<open>
  An image is a numpy array: its shape and its pixel values. The vision
  operations are parameters of the model, each with the arguments the source
  passes; each returns a value or raises. \<open>imread\<close> returns \<open>None\<close> for a
  file it cannot read or decode.
\<close>

record ndarray =
  rows :: nat
  cols :: nat
  pixels :: "nat list"

type_synonym contour = "(int \<times> int) list"

record cv2 =
  imread :: "string \<Rightarrow> py_exception + ndarray option"
  imread_GRAYSCALE :: "string \<Rightarrow> py_exception + ndarray option"
  cvtColor_BGR2GRAY :: "ndarray \<Rightarrow> py_exception + ndarray"
  adaptiveThreshold_GAUSSIAN_BINARY_INV :: "ndarray \<Rightarrow> nat \<Rightarrow> nat \<Rightarrow> int \<Rightarrow> py_exception + ndarray"
  morphologyEx_OPEN :: "ndarray \<Rightarrow> nat \<Rightarrow> nat \<Rightarrow> py_exception + ndarray"
  imwrite :: "string \<Rightarrow> ndarray \<Rightarrow> py_exception + bool"
  findContours_CCOMP_SIMPLE :: "ndarray \<Rightarrow> py_exception + contour list"
  contourArea :: "contour \<Rightarrow> py_exception + real"
  matchTemplate_CCOEFF_NORMED :: "ndarray \<Rightarrow> ndarray \<Rightarrow> py_exception + real list list"

text \<open>
  \<open>Path(s)\<close> builds a path or raises; the operations on a path are read
  off its parts.
\<close>

record pathlib =
  Path :: "string \<Rightarrow> py_exception + string"
  path_parent :: "string \<Rightarrow> string"
  path_stem :: "string \<Rightarrow> string"
  path_name :: "string \<Rightarrow> string"
  path_join :: "string \<Rightarrow> string \<Rightarrow> string"

section \<open>feature_extraction.py\<close>

definition to_point :: "int \<times> int \<Rightarrow> point" where
  "to_point p = (real_of_int (fst p), real_of_int (snd p))"

text \<open>
  The body of the inner \<open>try\<close> of the contour loop: the polygon of the
  contour's points is accepted when valid and non-empty; an invalid one is
  repaired with \<open>buffer(0)\<close>, and the members of a repaired MultiPolygon are
  accepted one by one.
\<close>

definition polygon_of_contour :: "shapely \<Rightarrow> contour \<Rightarrow> geom list comp" where
  "polygon_of_contour sh points =
     (let polygon = Polygon (map to_point points) in
      if is_valid sh polygon \<and> \<not> is_empty polygon then ret [polygon]
      else if \<not> is_valid sh polygon
      then and_then (call (buffer0 sh polygon)) (\<lambda>fixed_polygon.
             if is_valid sh fixed_polygon \<and> \<not> is_empty fixed_polygon
             then (case fixed_polygon of
                     MultiPolygon gs \<Rightarrow> ret gs
                   | Polygon ps \<Rightarrow> ret [fixed_polygon])
             else and_then (py_print WarnCouldNotFix) (\<lambda>_. ret []))
      else ret [])"

text \<open>One pass of the contour loop: the polygons it adds to \<open>wall_polygons\<close>.\<close>

definition contour_step :: "cv2 \<Rightarrow> shapely \<Rightarrow> real \<Rightarrow> contour \<Rightarrow> geom list comp" where
  "contour_step cv sh min_area contour =
     and_then (call (contourArea cv contour)) (\<lambda>area.
     if area < min_area then ret []
     else if length contour < 3 then ret []
     else try_except (polygon_of_contour sh contour)
            (\<lambda>e. and_then (py_print (WarnContour e)) (\<lambda>_. ret [])))"

fun contour_loop :: "cv2 \<Rightarrow> shapely \<Rightarrow> real \<Rightarrow> contour list \<Rightarrow> geom list comp" where
  "contour_loop cv sh min_area [] = ret []"
| "contour_loop cv sh min_area (contour # rest) =
     and_then (contour_step cv sh min_area contour) (\<lambda>ps.
     and_then (contour_loop cv sh min_area rest) (\<lambda>more.
     ret (ps @ more)))"

text \<open>The fallback bounding box: \<open>safe_inset\<close> and the four corner points.\<close>

definition safe_inset :: "int \<Rightarrow> int \<Rightarrow> int" where
  "safe_inset h_img w_img = min 10 (min (h_img div 2 - 1) (w_img div 2 - 1))"

definition fallback_points :: "int \<Rightarrow> int \<Rightarrow> (int \<times> int) list" where
  "fallback_points h_img w_img =
     [(safe_inset h_img w_img, safe_inset h_img w_img),
      (w_img - safe_inset h_img w_img, safe_inset h_img w_img),
      (w_img - safe_inset h_img w_img, h_img - safe_inset h_img w_img),
      (safe_inset h_img w_img, h_img - safe_inset h_img w_img)]"

definition fallback_poly :: "int \<Rightarrow> int \<Rightarrow> geom" where
  "fallback_poly h_img w_img = Polygon (map to_point (fallback_points h_img w_img))"

definition fallback :: "shapely \<Rightarrow> int \<Rightarrow> int \<Rightarrow> geom list comp" where
  "fallback sh h_img w_img =
     and_then (py_print WarnNoValidWalls) (\<lambda>_.
     if is_valid sh (fallback_poly h_img w_img)
     then and_then (py_print InfoFallback) (\<lambda>_. ret [fallback_poly h_img w_img])
     else and_then (py_print ErrFallback) (\<lambda>_. ret []))"

text \<open>The debug image: a failure to write it is caught and printed.\<close>

definition debug_path_cleaned :: "pathlib \<Rightarrow> string \<Rightarrow> string \<Rightarrow> string" where
  "debug_path_cleaned pl output_dir filename_stem =
     path_join pl output_dir (filename_stem @ ''_cleaned.png'')"

definition debug_saving :: "stdout \<Rightarrow> cv2 \<Rightarrow> string \<Rightarrow> ndarray \<Rightarrow> unit comp" where
  "debug_saving out cv debug_path cleaned_image =
     try_except
       (and_then (call (imwrite cv debug_path cleaned_image))
          (\<lambda>_. print_text out debug_path (DebugSaved debug_path)))
       (\<lambda>write_e. py_print (WarnDebugWrite write_e))"

text \<open>
  The statements of \<open>extract_polygons_from_image\<close> that stand before its
  \<open>try\<close>: the print of the path, \<open>Path(image_path)\<close>, its parent and
  its stem. An exception here is not caught.
\<close>

definition loading :: "stdout \<Rightarrow> pathlib \<Rightarrow> string \<Rightarrow> (string \<times> string) comp" where
  "loading out pl image_path =
     and_then (print_text out image_path (InfoLoading image_path)) (\<lambda>_.
     and_then (call (Path pl image_path)) (\<lambda>p.
     ret (path_parent pl p, path_stem pl p)))"

text \<open>The body of the outer \<open>try\<close> of \<open>extract_polygons_from_image\<close>.\<close>

definition extract_body ::
  "stdout \<Rightarrow> cv2 \<Rightarrow> shapely \<Rightarrow> pathlib \<Rightarrow> string \<Rightarrow> string \<times> string \<Rightarrow> real \<Rightarrow> geom list comp" where
  "extract_body out cv sh pl image_path dirs min_area =
     and_then (call (imread cv image_path)) (\<lambda>image.
     case image of
       None \<Rightarrow> and_then (print_text out image_path (ErrCouldNotRead image_path)) (\<lambda>_. ret [])
     | Some img \<Rightarrow>
         and_then (call (cvtColor_BGR2GRAY cv img)) (\<lambda>gray.
         and_then (call (adaptiveThreshold_GAUSSIAN_BINARY_INV cv gray 255 11 2)) (\<lambda>thresh.
         and_then (call (morphologyEx_OPEN cv thresh 3 1)) (\<lambda>cleaned_image.
         and_then (debug_saving out cv (debug_path_cleaned pl (fst dirs) (snd dirs))
                     cleaned_image) (\<lambda>_.
         and_then (call (findContours_CCOMP_SIMPLE cv cleaned_image)) (\<lambda>contours.
         and_then (py_print (InfoFoundContours (length contours))) (\<lambda>_.
         and_then (contour_loop cv sh min_area contours) (\<lambda>wall_polygons.
         and_then (py_print (InfoReturning (length wall_polygons))) (\<lambda>_.
         if wall_polygons = []
         then fallback sh (int (rows img)) (int (cols img))
         else ret wall_polygons)))))))))"

definition extract_polygons_from_image ::
  "stdout \<Rightarrow> cv2 \<Rightarrow> shapely \<Rightarrow> pathlib \<Rightarrow> string \<Rightarrow> real \<Rightarrow> geom list comp" where
  "extract_polygons_from_image out cv sh pl image_path min_area =
     and_then (loading out pl image_path) (\<lambda>dirs.
     try_except (extract_body out cv sh pl image_path dirs min_area)
       (\<lambda>e. and_then (py_print (ErrUnexpected e)) (\<lambda>_. ret [])))"

text \<open>
  \<open>np.where(res >= threshold)\<close>: the (row, column) indices of the scores
  that reach the threshold, in row-major order.
\<close>

definition np_where_ge :: "real list list \<Rightarrow> real \<Rightarrow> (nat \<times> nat) list" where
  "np_where_ge res threshold =
     concat (map (\<lambda>r. map (\<lambda>c. (r, c))
                          (filter (\<lambda>c. res ! r ! c \<ge> threshold) [0..<length (res ! r)]))
                 [0..<length res])"

text \<open>\<open>zip(*loc[::-1])\<close>: the match locations as (x, y) = (column, row).\<close>

definition match_locations :: "real list list \<Rightarrow> real \<Rightarrow> (int \<times> int) list" where
  "match_locations res threshold = map (\<lambda>(r, c). (int c, int r)) (np_where_ge res threshold)"

text \<open>The rectangle of template size anchored at a match location.\<close>

definition match_rectangle :: "int \<Rightarrow> int \<Rightarrow> int \<times> int \<Rightarrow> geom" where
  "match_rectangle w h pt =
     (let top_left = pt; bottom_right = (fst pt + w, snd pt + h) in
      Polygon (map to_point
        [top_left, (fst bottom_right, snd top_left), bottom_right, (fst top_left, snd bottom_right)]))"

fun feature_loop :: "shapely \<Rightarrow> int \<Rightarrow> int \<Rightarrow> (int \<times> int) list \<Rightarrow> geom list" where
  "feature_loop sh w h [] = []"
| "feature_loop sh w h (pt # rest) =
     (if is_valid sh (match_rectangle w h pt) \<and> \<not> is_empty (match_rectangle w h pt)
      then match_rectangle w h pt # feature_loop sh w h rest
      else feature_loop sh w h rest)"

text \<open>
  The statement of \<open>find_features\<close> that stands before its \<open>try\<close>: the
  print of \<open>Path(template_path).name\<close>. An exception here is not caught.
\<close>

definition matching :: "stdout \<Rightarrow> pathlib \<Rightarrow> string \<Rightarrow> unit comp" where
  "matching out pl template_path =
     and_then (call (Path pl template_path)) (\<lambda>p.
     print_text out (path_name pl p) (InfoMatching (path_name pl p)))"

text \<open>The body of the \<open>try\<close> of \<open>find_features\<close>.\<close>

definition find_features_body ::
  "stdout \<Rightarrow> cv2 \<Rightarrow> shapely \<Rightarrow> pathlib \<Rightarrow> string \<Rightarrow> string \<Rightarrow> real \<Rightarrow> geom list comp" where
  "find_features_body out cv sh pl image_path template_path threshold =
     and_then (call (imread_GRAYSCALE cv image_path)) (\<lambda>img_gray.
     and_then (call (imread_GRAYSCALE cv template_path)) (\<lambda>template.
     case img_gray of
       None \<Rightarrow> and_then (print_text out image_path (ErrReadMain image_path)) (\<lambda>_. ret [])
     | Some img \<Rightarrow>
        (case template of
           None \<Rightarrow>
             and_then (print_text out template_path (ErrReadTemplate template_path)) (\<lambda>_. ret [])
         | Some tpl \<Rightarrow>
             and_then (call (matchTemplate_CCOEFF_NORMED cv img tpl)) (\<lambda>res.
             and_then (call (Path pl template_path)) (\<lambda>p.
             and_then (print_text out (path_name pl p)
                         (InfoFoundMatches
                            (length (feature_loop sh (int (cols tpl)) (int (rows tpl))
                                       (match_locations res threshold)))
                            (path_name pl p))) (\<lambda>_.
             ret (feature_loop sh (int (cols tpl)) (int (rows tpl))
                    (match_locations res threshold))))))))"

definition find_features ::
  "stdout \<Rightarrow> cv2 \<Rightarrow> shapely \<Rightarrow> pathlib \<Rightarrow> string \<Rightarrow> string \<Rightarrow> real \<Rightarrow> geom list comp" where
  "find_features out cv sh pl image_path template_path threshold =
     and_then (matching out pl template_path) (\<lambda>_.
     try_except (find_features_body out cv sh pl image_path template_path threshold)
       (\<lambda>e. and_then (py_print (ErrMatching e)) (\<lambda>_. ret [])))"

section \<open>main.py\<close>

text \<open>
  The server around the pipeline: its directories, the saving of the
  uploaded file (which may raise) and \<open>int(time.time())\<close>, as the string the
  model's file name carries.
\<close>

record server =
  UPLOAD_DIR :: string
  MODELS_DIR :: string
  BACKEND_DIR :: string
  save_upload :: "string \<Rightarrow> py_exception + unit"
  cache_buster :: string

datatype json_content = ModelUrl string | ErrorMessage string

record response =
  status_code :: nat
  success :: bool
  content :: json_content

text \<open>\<open>needle in text\<close> on Python strings.\<close>

fun starts_with :: "string \<Rightarrow> string \<Rightarrow> bool" where
  "starts_with [] text = True"
| "starts_with (p # ps) [] = False"
| "starts_with (p # ps) (c # cs) = (p = c \<and> starts_with ps cs)"

fun contains :: "string \<Rightarrow> string \<Rightarrow> bool" where
  "contains needle [] = (needle = [])"
| "contains needle (c # cs) = (starts_with needle (c # cs) \<or> contains needle cs)"

text \<open>The name of the model's file, from the path built of the upload's name.\<close>

definition model_filename :: "server \<Rightarrow> pathlib \<Rightarrow> string \<Rightarrow> string" where
  "model_filename srv pl p = path_stem pl p @ ''_'' @ cache_buster srv @ ''.obj''"

text \<open>The body of the second \<open>try\<close> of \<open>convert_blueprint_to_3d\<close>.\<close>

definition conversion ::
  "stdout \<Rightarrow> server \<Rightarrow> pathlib \<Rightarrow> cv2 \<Rightarrow> shapely \<Rightarrow> trimesh \<Rightarrow> string \<Rightarrow> string \<Rightarrow> real \<Rightarrow> int
   \<Rightarrow> response comp" where
  "conversion out srv pl cv sh tm filename model_name wall_height wall_thickness =
     (let upload_path = path_join pl (UPLOAD_DIR srv) filename;
          output_model_path = path_join pl (MODELS_DIR srv) model_name;
          model_url = ''/models/'' @ model_name in
      and_then (extract_polygons_from_image out cv sh pl upload_path 150.0) (\<lambda>wall_polygons.
      if wall_polygons = []
      then and_then (py_print ErrNoWallFeatures) (\<lambda>_.
           ret \<lparr>status_code = 400, success = False,
                content = ErrorMessage ''No wall features detected. Check image contrast/threshold.''\<rparr>)
      else
        and_then (py_print (InfoFoundWalls (length wall_polygons))) (\<lambda>_.
        and_then (find_features out cv sh pl upload_path
                    (path_join pl (BACKEND_DIR srv) ''door_template.png'') 0.7) (\<lambda>door_polygons.
        and_then (py_print (InfoFoundDoors (length door_polygons))) (\<lambda>_.
        and_then (find_features out cv sh pl upload_path
                    (path_join pl (BACKEND_DIR srv) ''window_template.png'') 0.7) (\<lambda>window_polygons.
        and_then (py_print (InfoFoundWindows (length window_polygons))) (\<lambda>_.
        and_then (build_3d_model sh tm wall_polygons door_polygons window_polygons
                    wall_height wall_thickness) (\<lambda>final_model.
        and_then (call (export tm final_model output_model_path)) (\<lambda>_.
        and_then (print_text out output_model_path (ConversionSuccessful output_model_path)) (\<lambda>_.
        ret \<lparr>status_code = 200, success = True, content = ModelUrl model_url\<rparr>))))))))))"

text \<open>The handler of the second \<open>try\<close>: the response for an exception.\<close>

definition conversion_failed :: "py_exception \<Rightarrow> response comp" where
  "conversion_failed e =
     (let error_message = message e in
      and_then (py_print (ErrConversion error_message)) (\<lambda>_.
      if contains ''No valid wall meshes could be created'' error_message
      then ret \<lparr>status_code = 400, success = False,
                content = ErrorMessage ''The uploaded blueprint could not be processed into a 3D model. Please ensure the lines are clear and walls are detectable.''\<rparr>
      else ret \<lparr>status_code = 500, success = False,
                content = ErrorMessage (''A critical server error occurred: '' @ error_message)\<rparr>))"

definition convert_blueprint_to_3d ::
  "stdout \<Rightarrow> server \<Rightarrow> pathlib \<Rightarrow> cv2 \<Rightarrow> shapely \<Rightarrow> trimesh \<Rightarrow> string \<Rightarrow> real \<Rightarrow> int
   \<Rightarrow> response comp" where
  "convert_blueprint_to_3d out srv pl cv sh tm filename wall_height wall_thickness =
     and_then
       (try_except
          (and_then (call (save_upload srv (path_join pl (UPLOAD_DIR srv) filename))) (\<lambda>_.
           and_then (print_text out (path_join pl (UPLOAD_DIR srv) filename)
                       (SavedFile (path_join pl (UPLOAD_DIR srv) filename))) (\<lambda>_.
           ret None)))
          (\<lambda>e. and_then (py_print (CouldNotSave e)) (\<lambda>_.
                ret (Some \<lparr>status_code = 500, success = False,
                           content = ErrorMessage (''Could not save file: '' @ message e)\<rparr>))))
       (\<lambda>early.
          case early of
            Some r \<Rightarrow> ret r
          | None \<Rightarrow>
              and_then (call (Path pl filename)) (\<lambda>p.
              try_except
                (conversion out srv pl cv sh tm filename (model_filename srv pl p)
                   wall_height wall_thickness)
                conversion_failed))"

section \<open>Mesh validity\<close>

text \<open>
  The mesh library calls a mesh watertight when every edge is included in
  exactly two faces. The source never asks for it; it is defined here to
  state what the pipeline does with a result that is not a closed solid.
\<close>

definition face_edges :: "nat \<times> nat \<times> nat \<Rightarrow> (nat \<times> nat) list" where
  "face_edges f =
     (case f of (i, j, k) \<Rightarrow> [(min i j, max i j), (min j k, max j k), (min k i, max k i)])"

definition is_watertight :: "mesh \<Rightarrow> bool" where
  "is_watertight m =
     (let es = concat (map face_edges (faces m))
      in es \<noteq> [] \<and> list_all (\<lambda>e. count_list es e = 2) es)"

section \<open>Sample libraries\<close>

text \<open>
  Small concrete libraries, on which the theorems below are instantiated:
  a validity test that accepts a ring of at least three distinct points, a
  repair that splits a ring after its third point, the shoelace area, an
  extrusion to a prism (side faces only) and a file system given as a
  function from paths to decoded images.
\<close>

fun ring_valid :: "geom \<Rightarrow> bool" where
  "ring_valid (Polygon ps) = (3 \<le> length ps \<and> distinct ps)"
| "ring_valid (MultiPolygon gs) =
     list_all (\<lambda>g. case g of Polygon ps \<Rightarrow> 3 \<le> length ps \<and> distinct ps
                     | MultiPolygon hs \<Rightarrow> False) gs"

definition split_ring :: "geom \<Rightarrow> geom" where
  "split_ring g =
     (case g of
        Polygon ps \<Rightarrow> MultiPolygon [Polygon (take 3 ps), Polygon (drop 3 ps)]
      | MultiPolygon gs \<Rightarrow> g)"

definition sample_shapely :: shapely where
  "sample_shapely = \<lparr>is_valid = ring_valid, buffer0 = (\<lambda>g. Inr (split_ring g))\<rparr>"

definition shoelace_area :: "contour \<Rightarrow> real" where
  "shoelace_area c =
     \<bar>real_of_int (sum_list (map (\<lambda>(p, q). fst p * snd q - fst q * snd p) (zip c (rotate1 c))))\<bar> / 2"

definition sample_cv2 :: "(string \<Rightarrow> ndarray option) \<Rightarrow> contour list \<Rightarrow> real list list \<Rightarrow> cv2" where
  "sample_cv2 files contours scores =
     \<lparr>imread = (\<lambda>path. Inr (files path)),
      imread_GRAYSCALE = (\<lambda>path. Inr (files path)),
      cvtColor_BGR2GRAY = (\<lambda>img. Inr img),
      adaptiveThreshold_GAUSSIAN_BINARY_INV = (\<lambda>img max_value block_size c. Inr img),
      morphologyEx_OPEN = (\<lambda>img kernel_size iterations. Inr img),
      imwrite = (\<lambda>path img. Inr True),
      findContours_CCOMP_SIMPLE = (\<lambda>img. Inr contours),
      contourArea = (\<lambda>c. Inr (shoelace_area c)),
      matchTemplate_CCOEFF_NORMED = (\<lambda>img tpl. Inr scores)\<rparr>"

definition sample_pathlib :: pathlib where
  "sample_pathlib =
     \<lparr>Path = (\<lambda>s. Inr s), path_parent = (\<lambda>p. ''.''), path_stem = (\<lambda>p. p),
      path_name = (\<lambda>p. p), path_join = (\<lambda>d f. d @ ''/'' @ f)\<rparr>"

text \<open>
  A standard output that writes every text, and one that cannot encode the
  path \<open>bad.png\<close>.
\<close>

definition sample_stdout :: stdout where
  "sample_stdout = (\<lambda>s. None)"

definition narrow_stdout :: stdout where
  "narrow_stdout = (\<lambda>s. if s = ''bad.png'' then Some (Exception ''UnicodeEncodeError'') else None)"

definition prism :: "geom \<Rightarrow> real \<Rightarrow> mesh" where
  "prism g height =
     (case g of
        Polygon ps \<Rightarrow>
          \<lparr>vertices = map (\<lambda>(x, y). (x, y, 0)) ps @ map (\<lambda>(x, y). (x, y, height)) ps,
           faces = concat (map (\<lambda>i. [(i, Suc i mod length ps, length ps + i),
                                      (Suc i mod length ps, length ps + Suc i mod length ps,
                                       length ps + i)])
                               [0..<length ps])\<rparr>
      | MultiPolygon gs \<Rightarrow> Trimesh)"

definition sample_trimesh :: trimesh where
  "sample_trimesh =
     \<lparr>extrude_polygon = (\<lambda>g height. Inr (prism g height)),
      difference = (\<lambda>a b. Inr a),
      export = (\<lambda>m path. Inr ())\<rparr>"

definition sample_server :: server where
  "sample_server =
     \<lparr>UPLOAD_DIR = ''uploads'', MODELS_DIR = ''models'', BACKEND_DIR = ''backend'',
      save_upload = (\<lambda>path. Inr ()), cache_buster = ''1700000000''\<rparr>"

text \<open>A decoded image of the given shape.\<close>

definition blank :: "nat \<Rightarrow> nat \<Rightarrow> ndarray" where
  "blank h w = \<lparr>rows = h, cols = w, pixels = []\<rparr>"

text \<open>
  A plan of 4 rows and 6 columns, a door template of 2 rows and 3 columns,
  and the scores of matching the one against the other.
\<close>

definition plan_files :: "string \<Rightarrow> ndarray option" where
  "plan_files path =
     (if path = ''plan.png'' then Some (blank 4 6)
      else if path = ''door_template.png'' then Some (blank 2 3)
      else None)"

definition door_scores :: "real list list" where
  "door_scores = [[0.1, 0.9, 0.8, 0.2], [0.75, 0, 0, 0.7], [0, 0, 0, 0]]"

text \<open>
  Contours: a figure of eight through (5, 5), a square of side 10 and three
  points on a line.
\<close>

definition sample_contours :: "contour list" where
  "sample_contours =
     [[(0, 0), (10, 0), (5, 5), (10, 10), (0, 10), (5, 5)],
      [(0, 0), (10, 0), (10, 10), (0, 10)],
      [(0, 0), (1, 1), (2, 2)]]"

text \<open>A square wall footprint, a door rectangle and a mesh of one triangle.\<close>

definition square :: geom where
  "square = Polygon [(0, 0), (10, 0), (10, 10), (0, 10)]"

definition door_rectangle :: geom where
  "door_rectangle = Polygon [(2, 0), (4, 0), (4, 1), (2, 1)]"

definition open_triangle :: mesh where
  "open_triangle = \<lparr>vertices = [(0, 0, 0), (1, 0, 0), (0, 1, 0)], faces = [(0, 1, 2)]\<rparr>"

section \<open>Computations: basic facts\<close>

lemma and_then_Inr [simp]: "and_then (Inr x, l) f = (fst (f x), l @ snd (f x))"
  by (simp add: and_then_def)

lemma and_then_Inl [simp]: "and_then (Inl e, l) f = (Inl e, l)"
  by (simp add: and_then_def)

lemma try_except_Inr [simp]: "try_except (Inr x, l) h = (Inr x, l)"
  by (simp add: try_except_def)

lemma try_except_Inl [simp]: "try_except (Inl e, l) h = (fst (h e), l @ snd (h e))"
  by (simp add: try_except_def)

lemma fst_ret [simp]: "fst (ret x) = Inr x"
  by (simp add: ret_def)

lemma snd_ret [simp]: "snd (ret x) = []"
  by (simp add: ret_def)

lemma fst_py_print [simp]: "fst (py_print m) = Inr ()"
  by (simp add: py_print_def)

lemma snd_py_print [simp]: "snd (py_print m) = [m]"
  by (simp add: py_print_def)

lemma fst_call [simp]: "fst (call r) = r"
  by (simp add: call_def)

lemma snd_call [simp]: "snd (call r) = []"
  by (simp add: call_def)

lemma and_then_returns: "fst c = Inr x \<Longrightarrow> and_then c f = (fst (f x), snd c @ snd (f x))"
  by (simp add: and_then_def)

lemma and_then_raises: "fst c = Inl e \<Longrightarrow> and_then c f = (Inl e, snd c)"
  by (simp add: and_then_def)

lemma try_except_returns: "fst c = Inr x \<Longrightarrow> try_except c h = c"
  by (simp add: try_except_def)

lemma try_except_raises: "fst c = Inl e \<Longrightarrow> try_except c h = (fst (h e), snd c @ snd (h e))"
  by (simp add: try_except_def)

lemma fst_and_then:
  "fst (and_then c f) = (case fst c of Inl e \<Rightarrow> Inl e | Inr x \<Rightarrow> fst (f x))"
  by (simp add: and_then_def split: sum.splits)

lemma snd_and_then:
  "snd (and_then c f) = (case fst c of Inl e \<Rightarrow> snd c | Inr x \<Rightarrow> snd c @ snd (f x))"
  by (simp add: and_then_def split: sum.splits)

lemma fst_try_except:
  "fst (try_except c h) = (case fst c of Inl e \<Rightarrow> fst (h e) | Inr x \<Rightarrow> Inr x)"
  by (simp add: try_except_def split: sum.splits)

text \<open>Unfolding sets for evaluating the model on the sample libraries.\<close>

lemmas comp_eval = ret_def py_print_def print_text_def call_def and_then_def try_except_def

lemmas geometry_eval =
  build_3d_model_def scaling_logic_def scale_factor_def wall_meshes_def opening_meshes_def
  subtract_openings_def scale_to_meters_def extrude_one_def extrusion_height_pixels_def
  door_height_pixels_def window_height_pixels_def window_sill_pixels_def
  REAL_WORLD_WALL_THICKNESS_METERS_def REAL_WORLD_DOOR_HEIGHT_METERS_def
  REAL_WORLD_WINDOW_HEIGHT_METERS_def REAL_WORLD_WINDOW_SILL_HEIGHT_METERS_def
  concatenate_def append_mesh_def apply_scale_def apply_translation_def Trimesh_def
  mesh_is_empty_def

lemmas sample_eval =
  sample_shapely_def sample_trimesh_def sample_cv2_def sample_pathlib_def sample_server_def
  prism_def square_def door_rectangle_def open_triangle_def blank_def split_ring_def
  shoelace_area_def plan_files_def door_scores_def sample_contours_def sample_stdout_def
  narrow_stdout_def

section \<open>The scale calibration\<close>

lemma scale_factor_pos: "0 < scale_factor wall_thickness_pixels"
  by (simp add: scale_factor_def REAL_WORLD_WALL_THICKNESS_METERS_def)

lemma scaling_logic_returns:
  "fst (scaling_logic wall_thickness_pixels) = Inr (scale_factor wall_thickness_pixels)"
  by (simp add: scaling_logic_def and_then_def)

text \<open>
  C2. For a positive wall thickness in pixels the scale factor is the
  thickness divided by 0.2, so 5 pixels give exactly 25 pixels per meter; for
  a thickness of zero or less the scale factor is exactly 1, and this is a
  fallback, not an error: the scaling logic returns the factor and prints a
  warning.
\<close>

theorem scale_factor_computation:
  "(0 < wall_thickness_pixels \<longrightarrow>
      scale_factor wall_thickness_pixels = real_of_int wall_thickness_pixels / 0.2 \<and>
      scaling_logic wall_thickness_pixels =
        (Inr (real_of_int wall_thickness_pixels / 0.2),
         [CalculatedScale (real_of_int wall_thickness_pixels / 0.2)]))
   \<and> scale_factor 5 = 25.0
   \<and> (wall_thickness_pixels \<le> 0 \<longrightarrow>
        scale_factor wall_thickness_pixels = 1.0 \<and>
        scaling_logic wall_thickness_pixels = (Inr 1.0, [WarnThicknessZero]))"
  by (simp add: scale_factor_def scaling_logic_def REAL_WORLD_WALL_THICKNESS_METERS_def
        ret_def py_print_def)

theorem scale_factor_computation_witness:
  "scale_factor 8 = 40 \<and> scaling_logic 8 = (Inr 40, [CalculatedScale 40])
   \<and> scale_factor 0 = 1 \<and> scaling_logic 0 = (Inr 1, [WarnThicknessZero])
   \<and> scale_factor (- 3) = 1"
  using scale_factor_computation [of 8] scale_factor_computation [of 0]
    scale_factor_computation [of "- 3"]
  by simp

section \<open>The mesh synthesis\<close>

lemma extrude_one_returns:
  "\<exists>ms. fst (extrude_one sh tm skipped failed post height polygon) = Inr ms"
  by (cases "extrude_polygon tm polygon height")
     (simp_all add: extrude_one_def and_then_def try_except_def)

lemma extrude_all_returns:
  "\<exists>ms. fst (extrude_all sh tm skipped failed post height polygons) = Inr ms"
proof (induction polygons)
  case Nil
  show ?case by simp
next
  case (Cons p ps)
  obtain a where a: "fst (extrude_one sh tm skipped failed post height p) = Inr a"
    using extrude_one_returns by blast
  obtain b where b: "fst (extrude_all sh tm skipped failed post height ps) = Inr b"
    using Cons.IH by blast
  show ?case by (simp add: and_then_returns[OF a] and_then_returns[OF b])
qed

lemma wall_meshes_returns:
  "\<exists>ws. fst (wall_meshes sh tm wall_polygons wall_height wall_thickness_pixels) = Inr ws"
  unfolding wall_meshes_def by (rule extrude_all_returns)

lemma opening_meshes_returns:
  "\<exists>os. fst (opening_meshes sh tm door_polygons window_polygons wall_thickness_pixels) = Inr os"
proof -
  obtain ds where ds: "fst (extrude_all sh tm WarnSkipDoor WarnExtrudeDoor (\<lambda>m. m)
      (door_height_pixels wall_thickness_pixels) door_polygons) = Inr ds"
    using extrude_all_returns by blast
  obtain wins where wins: "fst (extrude_all sh tm WarnSkipWindow WarnExtrudeWindow
      (apply_translation (0, 0, window_sill_pixels wall_thickness_pixels))
      (window_height_pixels wall_thickness_pixels) window_polygons) = Inr wins"
    using extrude_all_returns by blast
  show ?thesis
    unfolding opening_meshes_def
    by (simp add: and_then_returns[OF ds] and_then_returns[OF wins])
qed

lemma subtract_openings_fst:
  "fst (subtract_openings tm wall opens n_doors n_windows) =
     Inr (if opens = [] then wall
          else case difference tm wall (concatenate opens) of
                 Inl e \<Rightarrow> wall
               | Inr d \<Rightarrow> if mesh_is_empty d then wall else d)"
  by (cases "difference tm wall (concatenate opens)")
     (simp_all add: subtract_openings_def and_then_def try_except_def)

lemma subtract_openings_warns:
  assumes "opens \<noteq> []"
  shows "difference tm wall (concatenate opens) = Inl e \<Longrightarrow>
           WarnDifferenceFailed e \<in> set (snd (subtract_openings tm wall opens n_doors n_windows))"
    and "difference tm wall (concatenate opens) = Inr d \<Longrightarrow> mesh_is_empty d \<Longrightarrow>
           WarnDifferenceEmpty \<in> set (snd (subtract_openings tm wall opens n_doors n_windows))"
  using assms by (simp_all add: subtract_openings_def and_then_def try_except_def)

text \<open>
  The model \<open>build_3d_model\<close> returns, from the wall meshes and the opening
  meshes its loops built.
\<close>

lemma build_3d_model_fst:
  assumes ws: "fst (wall_meshes sh tm wall_polygons wall_height wtp) = Inr ws"
    and os: "fst (opening_meshes sh tm door_polygons window_polygons wtp) = Inr os"
  shows "fst (build_3d_model sh tm wall_polygons door_polygons window_polygons wall_height wtp) =
     Inr (if ws = [] then Trimesh
          else scale_to_meters wtp
                 (if os = [] then concatenate ws
                  else case difference tm (concatenate ws) (concatenate os) of
                         Inl e \<Rightarrow> concatenate ws
                       | Inr d \<Rightarrow> if mesh_is_empty d then concatenate ws else d))"
  unfolding build_3d_model_def
  by (simp add: and_then_returns[OF scaling_logic_returns] and_then_returns[OF ws]
        and_then_returns[OF os] and_then_returns[OF subtract_openings_fst]
        fst_and_then snd_and_then)

lemma build_3d_model_snd:
  assumes ws: "fst (wall_meshes sh tm wall_polygons wall_height wtp) = Inr ws" "ws \<noteq> []"
    and os: "fst (opening_meshes sh tm door_polygons window_polygons wtp) = Inr os"
  shows "set (snd (subtract_openings tm (concatenate ws) os
                     (length door_polygons) (length window_polygons)))
     \<subseteq> set (snd (build_3d_model sh tm wall_polygons door_polygons window_polygons wall_height wtp))"
  unfolding build_3d_model_def
  using ws(2)
  by (auto simp: and_then_returns[OF scaling_logic_returns] and_then_returns[OF ws(1)]
        and_then_returns[OF os] and_then_returns[OF subtract_openings_fst]
        fst_and_then snd_and_then)

lemma build_3d_model_returns:
  "\<exists>m. fst (build_3d_model sh tm wall_polygons door_polygons window_polygons wall_height wtp) = Inr m"
proof -
  obtain ws where ws: "fst (wall_meshes sh tm wall_polygons wall_height wtp) = Inr ws"
    using wall_meshes_returns by blast
  obtain os where os: "fst (opening_meshes sh tm door_polygons window_polygons wtp) = Inr os"
    using opening_meshes_returns by blast
  show ?thesis using build_3d_model_fst[OF ws os] by blast
qed

lemma mesh_is_empty_scale [simp]: "mesh_is_empty (apply_scale s m) = mesh_is_empty m"
  by (simp add: mesh_is_empty_def apply_scale_def)

lemma mesh_is_empty_scale_to_meters [simp]:
  "mesh_is_empty (scale_to_meters wtp m) = mesh_is_empty m"
  by (simp add: scale_to_meters_def)

lemma z_values_scale: "z_values (apply_scale s m) = map (\<lambda>z. z * s) (z_values m)"
  by (simp add: z_values_def apply_scale_def case_prod_beta comp_def)

lemma mesh_height_scale:
  assumes "0 \<le> s" "vertices m \<noteq> []"
  shows "mesh_height (apply_scale s m) = mesh_height m * s"
proof -
  have ne: "set (z_values m) \<noteq> {}"
    using assms(2) by (simp add: z_values_def)
  have mono: "mono (\<lambda>z::real. z * s)"
    using assms(1) by (simp add: mono_def mult_right_mono)
  have "Max ((\<lambda>z. z * s) ` set (z_values m)) = Max (set (z_values m)) * s"
    using mono_Max_commute[OF mono _ ne] by simp
  moreover have "Min ((\<lambda>z. z * s) ` set (z_values m)) = Min (set (z_values m)) * s"
    using mono_Min_commute[OF mono _ ne] by simp
  ultimately show ?thesis
    by (simp add: mesh_height_def z_values_scale left_diff_distrib)
qed

lemma mesh_height_scale_to_meters:
  assumes "vertices m \<noteq> []"
  shows "mesh_height (scale_to_meters wtp m) = mesh_height m / scale_factor wtp"
  using assms scale_factor_pos[of wtp]
  by (simp add: scale_to_meters_def mesh_height_scale)

lemma sample_wall:
  "fst (wall_meshes sample_shapely tm [square] 3 5)
     = (case extrude_polygon tm square 75 of Inr m \<Rightarrow> Inr [m] | Inl e \<Rightarrow> Inr [])"
  by (simp add: comp_eval geometry_eval sample_eval split: sum.splits)

lemma sample_door:
  "fst (opening_meshes sample_shapely tm [door_rectangle] [] 5)
     = (case extrude_polygon tm door_rectangle (105 / 2) of Inr m \<Rightarrow> Inr [m] | Inl e \<Rightarrow> Inr [])"
  by (simp add: comp_eval geometry_eval sample_eval split: sum.splits)












text \<open>
  C3, as the code has it. Whenever at least one wall mesh was built and an
  opening mesh exists: if the boolean difference raises or yields an empty
  mesh, \<open>build_3d_model\<close> returns the un-subtracted wall mesh (rescaled to
  meters, and empty only if the wall mesh itself is) and prints a warning;
  a non-empty result of the difference is returned, rescaled, whatever its
  validity: the source tests \<open>is_empty\<close> only.
\<close>

theorem difference_fallback:
  assumes ws: "fst (wall_meshes sh tm wall_polygons wall_height wtp) = Inr ws" "ws \<noteq> []"
    and os: "fst (opening_meshes sh tm door_polygons window_polygons wtp) = Inr os" "os \<noteq> []"
  shows "((\<exists>e. difference tm (concatenate ws) (concatenate os) = Inl e) \<or>
          (\<exists>d. difference tm (concatenate ws) (concatenate os) = Inr d \<and> mesh_is_empty d) \<longrightarrow>
            fst (build_3d_model sh tm wall_polygons door_polygons window_polygons wall_height wtp)
              = Inr (scale_to_meters wtp (concatenate ws))
          \<and> mesh_is_empty (scale_to_meters wtp (concatenate ws)) = mesh_is_empty (concatenate ws)
          \<and> (WarnDifferenceEmpty
                \<in> set (snd (build_3d_model sh tm wall_polygons door_polygons window_polygons
                               wall_height wtp))
             \<or> (\<exists>e. WarnDifferenceFailed e
                \<in> set (snd (build_3d_model sh tm wall_polygons door_polygons window_polygons
                               wall_height wtp)))))
       \<and> (\<forall>d. difference tm (concatenate ws) (concatenate os) = Inr d \<and> \<not> mesh_is_empty d \<longrightarrow>
            fst (build_3d_model sh tm wall_polygons door_polygons window_polygons wall_height wtp)
              = Inr (scale_to_meters wtp d))"
proof (intro conjI impI allI)
  assume f: "(\<exists>e. difference tm (concatenate ws) (concatenate os) = Inl e) \<or>
          (\<exists>d. difference tm (concatenate ws) (concatenate os) = Inr d \<and> mesh_is_empty d)"
  show "fst (build_3d_model sh tm wall_polygons door_polygons window_polygons wall_height wtp)
              = Inr (scale_to_meters wtp (concatenate ws))"
    using f ws(2) os(2) by (auto simp: build_3d_model_fst[OF ws(1) os(1)])
  show "mesh_is_empty (scale_to_meters wtp (concatenate ws)) = mesh_is_empty (concatenate ws)"
    by simp
  show "WarnDifferenceEmpty
          \<in> set (snd (build_3d_model sh tm wall_polygons door_polygons window_polygons
                         wall_height wtp))
        \<or> (\<exists>e. WarnDifferenceFailed e
          \<in> set (snd (build_3d_model sh tm wall_polygons door_polygons window_polygons
                         wall_height wtp)))"
    using f subtract_openings_warns[OF os(2)] build_3d_model_snd[OF ws os(1)] by blast
next
  fix d
  assume "difference tm (concatenate ws) (concatenate os) = Inr d \<and> \<not> mesh_is_empty d"
  then show "fst (build_3d_model sh tm wall_polygons door_polygons window_polygons wall_height wtp)
              = Inr (scale_to_meters wtp d)"
    using ws(2) os(2) by (simp add: build_3d_model_fst[OF ws(1) os(1)])
qed

theorem difference_fallback_witness:
  "fst (build_3d_model sample_shapely
          (sample_trimesh\<lparr>difference := (\<lambda>a b. Inl (Exception ''boolean engine failed''))\<rparr>)
          [square] [door_rectangle] [] 3 5)
     = Inr (scale_to_meters 5 (concatenate [prism square 75]))
   \<and> \<not> mesh_is_empty (scale_to_meters 5 (concatenate [prism square 75]))
   \<and> WarnDifferenceFailed (Exception ''boolean engine failed'')
       \<in> set (snd (build_3d_model sample_shapely
          (sample_trimesh\<lparr>difference := (\<lambda>a b. Inl (Exception ''boolean engine failed''))\<rparr>)
          [square] [door_rectangle] [] 3 5))"
proof -
  let ?tm = "sample_trimesh\<lparr>difference := (\<lambda>a b. Inl (Exception ''boolean engine failed''))\<rparr>"
  have ws: "fst (wall_meshes sample_shapely ?tm [square] 3 5) = Inr [prism square 75]"
    by (simp add: sample_wall) (simp add: sample_trimesh_def)
  have os: "fst (opening_meshes sample_shapely ?tm [door_rectangle] [] 5)
              = Inr [prism door_rectangle (105 / 2)]"
    by (simp add: sample_door) (simp add: sample_trimesh_def)
  have f: "(\<exists>e. difference ?tm (concatenate [prism square 75])
                   (concatenate [prism door_rectangle (105 / 2)]) = Inl e) \<or>
           (\<exists>d. difference ?tm (concatenate [prism square 75])
                   (concatenate [prism door_rectangle (105 / 2)]) = Inr d \<and> mesh_is_empty d)"
    by simp
  have ne: "\<not> mesh_is_empty (concatenate [prism square 75])"
    by (simp add: geometry_eval sample_eval)
  have log: "\<And>e. WarnDifferenceFailed e \<in> set (snd (build_3d_model sample_shapely ?tm
                 [square] [door_rectangle] [] 3 5)) \<Longrightarrow> e = Exception ''boolean engine failed''"
    by (simp add: comp_eval geometry_eval sample_eval)
  have nolog: "WarnDifferenceEmpty \<notin> set (snd (build_3d_model sample_shapely ?tm
                 [square] [door_rectangle] [] 3 5))"
    by (simp add: comp_eval geometry_eval sample_eval)
  show ?thesis
    using difference_fallback [OF ws _ os _] f ne log nolog by auto
qed

text \<open>
  C3 as stated fails for an invalid result: a boolean engine that answers
  with a single triangle (not empty, not watertight) gets its answer
  returned, with no warning and not the wall mesh.
\<close>

theorem difference_invalid_counterexample:
  "\<not> mesh_is_empty open_triangle \<and> \<not> is_watertight open_triangle
   \<and> build_3d_model sample_shapely (sample_trimesh\<lparr>difference := (\<lambda>a b. Inr open_triangle)\<rparr>)
        [square] [door_rectangle] [] 3 5
     = (Inr (scale_to_meters 5 open_triangle),
        [CalculatedScale 25, InfoSubtracting 1 0, InfoBuilt 3])
   \<and> scale_to_meters 5 open_triangle \<noteq> scale_to_meters 5 (concatenate [prism square 75])"
  by (simp add: comp_eval geometry_eval sample_eval is_watertight_def face_edges_def)

section \<open>The conversion request\<close>

lemmas extraction_eval =
  extract_polygons_from_image_def loading_def extract_body_def debug_saving_def
  debug_path_cleaned_def
  contour_step_def polygon_of_contour_def fallback_def fallback_poly_def fallback_points_def
  safe_inset_def to_point_def find_features_def matching_def find_features_body_def
  match_locations_def
  match_rectangle_def np_where_ge_def Let_def

lemmas main_eval =
  convert_blueprint_to_3d_def conversion_def conversion_failed_def model_filename_def

text \<open>
  C4, on the code. With one wall polygon extracted and an extrusion that
  raises, no wall mesh is built: \<open>build_3d_model\<close> prints its error and
  returns the empty mesh without raising. \<open>convert_blueprint_to_3d\<close> then
  exports that mesh and answers with success when the export succeeds, and
  with the generic status 500 when the export raises; in neither case with
  the failure it keeps for "No valid wall meshes could be created".
\<close>

theorem zero_wall_meshes_reported_as_success:
  "build_3d_model sample_shapely
     (sample_trimesh\<lparr>extrude_polygon := (\<lambda>g h. Inl (Exception ''no triangulation engine''))\<rparr>)
     [square] [] [] 3 5
     = (Inr Trimesh,
        [CalculatedScale 25, WarnExtrudeWall (Exception ''no triangulation engine''),
         ErrNoWallMeshes])
   \<and> fst (convert_blueprint_to_3d sample_stdout sample_server sample_pathlib
            (sample_cv2 (\<lambda>path. Some (blank 100 200)) [[(0, 0), (20, 0), (20, 20), (0, 20)]] [])
            sample_shapely
            (sample_trimesh\<lparr>extrude_polygon := (\<lambda>g h. Inl (Exception ''no triangulation engine''))\<rparr>)
            ''plan.png'' 3 5)
     = Inr \<lparr>status_code = 200, success = True,
            content = ModelUrl ''/models/plan.png_1700000000.obj''\<rparr>
   \<and> fst (convert_blueprint_to_3d sample_stdout sample_server sample_pathlib
            (sample_cv2 (\<lambda>path. Some (blank 100 200)) [[(0, 0), (20, 0), (20, 20), (0, 20)]] [])
            sample_shapely
            (sample_trimesh\<lparr>extrude_polygon := (\<lambda>g h. Inl (Exception ''no triangulation engine'')),
                             export := (\<lambda>m path. Inl (Exception ''nothing to export''))\<rparr>)
            ''plan.png'' 3 5)
     = Inr \<lparr>status_code = 500, success = False,
            content = ErrorMessage ''A critical server error occurred: nothing to export''\<rparr>"
  by (simp add: comp_eval geometry_eval sample_eval extraction_eval main_eval)

section \<open>The contour extractor\<close>

lemma and_then_InrD:
  "fst (and_then c f) = Inr y \<Longrightarrow> \<exists>x. fst c = Inr x \<and> fst (f x) = Inr y"
  by (cases "fst c") (simp_all add: fst_and_then)

text \<open>
  The exception \<open>extract_polygons_from_image\<close> propagates, if any, is the
  one of the statements before its \<open>try\<close>; otherwise it returns the list
  of its body, or the empty list when the body raises.
\<close>

lemma extract_fst:
  "fst (extract_polygons_from_image out cv sh pl image_path min_area) =
     (case fst (loading out pl image_path) of
        Inl e \<Rightarrow> Inl e
      | Inr dirs \<Rightarrow>
          Inr (case fst (extract_body out cv sh pl image_path dirs min_area) of
                 Inl e \<Rightarrow> [] | Inr ps \<Rightarrow> ps))"
  by (simp add: extract_polygons_from_image_def fst_and_then fst_try_except split: sum.splits)

lemma loading_returns:
  "fst (loading out pl image_path) = Inr dirs \<longleftrightarrow>
     out image_path = None \<and>
     (\<exists>p. Path pl image_path = Inr p \<and> dirs = (path_parent pl p, path_stem pl p))"
  by (cases "out image_path"; cases "Path pl image_path")
     (auto simp: loading_def print_text_def comp_eval)

lemma loading_printed:
  "fst (loading out pl image_path) = Inr dirs \<Longrightarrow>
     snd (loading out pl image_path) = [InfoLoading image_path]"
  by (cases "out image_path"; cases "Path pl image_path")
     (auto simp: loading_def print_text_def comp_eval)

text \<open>
  What the library is taken to do: the members of a valid, non-empty
  MultiPolygon that \<open>buffer(0)\<close> returns are valid and non-empty polygons.
  Under it each polygon a contour yields is valid and non-empty.
\<close>

lemma polygon_of_contour_valid:
  assumes members: "\<forall>g gs. buffer0 sh g = Inr (MultiPolygon gs) \<and> is_valid sh (MultiPolygon gs)
              \<and> \<not> is_empty (MultiPolygon gs) \<longrightarrow> (\<forall>p\<in>set gs. is_valid sh p \<and> \<not> is_empty p)"
    and res: "fst (polygon_of_contour sh points) = Inr ps"
  shows "\<forall>p\<in>set ps. is_valid sh p \<and> \<not> is_empty p"
proof (cases "is_valid sh (Polygon (map to_point points))")
  case True
  with res show ?thesis
    by (auto simp: polygon_of_contour_def Let_def split: if_splits)
next
  case False
  show ?thesis
  proof (cases "buffer0 sh (Polygon (map to_point points))")
    case (Inl e)
    with False res show ?thesis
      by (simp add: polygon_of_contour_def Let_def fst_and_then)
  next
    case (Inr fixed)
    show ?thesis
    proof (cases "is_valid sh fixed \<and> \<not> is_empty fixed")
      case ok: True
      show ?thesis
      proof (cases fixed)
        case (Polygon qs)
        with False Inr ok res show ?thesis
          by (auto simp: polygon_of_contour_def Let_def fst_and_then)
      next
        case (MultiPolygon gs)
        with False Inr ok res have "ps = gs"
          by (auto simp: polygon_of_contour_def Let_def fst_and_then)
        with members Inr ok MultiPolygon show ?thesis
          by blast
      qed
    next
      case bad: False
      with False Inr res have "ps = []"
        by (auto simp: polygon_of_contour_def Let_def fst_and_then)
      then show ?thesis by simp
    qed
  qed
qed

lemma contour_step_valid:
  assumes members: "\<forall>g gs. buffer0 sh g = Inr (MultiPolygon gs) \<and> is_valid sh (MultiPolygon gs)
              \<and> \<not> is_empty (MultiPolygon gs) \<longrightarrow> (\<forall>p\<in>set gs. is_valid sh p \<and> \<not> is_empty p)"
    and res: "fst (contour_step cv sh min_area contour) = Inr ps"
  shows "\<forall>p\<in>set ps. is_valid sh p \<and> \<not> is_empty p"
proof (cases "contourArea cv contour")
  case (Inl e)
  with res show ?thesis by (simp add: contour_step_def fst_and_then)
next
  case (Inr area)
  show ?thesis
  proof (cases "area < min_area \<or> length contour < 3")
    case True
    with Inr res have "ps = []"
      by (auto simp: contour_step_def fst_and_then split: if_splits)
    then show ?thesis by simp
  next
    case False
    with Inr res have t: "fst (try_except (polygon_of_contour sh contour)
            (\<lambda>e. and_then (py_print (WarnContour e)) (\<lambda>_. ret []))) = Inr ps"
      by (auto simp: contour_step_def fst_and_then split: if_splits)
    show ?thesis
    proof (cases "fst (polygon_of_contour sh contour)")
      case (Inl e)
      with t have "ps = []" by (simp add: fst_try_except fst_and_then)
      then show ?thesis by simp
    next
      case (Inr qs)
      with t have "ps = qs" by (simp add: fst_try_except)
      with Inr polygon_of_contour_valid[OF members] show ?thesis by blast
    qed
  qed
qed

lemma contour_loop_valid:
  assumes members: "\<forall>g gs. buffer0 sh g = Inr (MultiPolygon gs) \<and> is_valid sh (MultiPolygon gs)
              \<and> \<not> is_empty (MultiPolygon gs) \<longrightarrow> (\<forall>p\<in>set gs. is_valid sh p \<and> \<not> is_empty p)"
  shows "fst (contour_loop cv sh min_area contours) = Inr ps
           \<Longrightarrow> \<forall>p\<in>set ps. is_valid sh p \<and> \<not> is_empty p"
proof (induction contours arbitrary: ps)
  case Nil
  then show ?case by simp
next
  case (Cons c cs)
  from Cons.prems obtain a where a: "fst (contour_step cv sh min_area c) = Inr a"
    and rest: "fst (and_then (contour_loop cv sh min_area cs) (\<lambda>more. ret (a @ more))) = Inr ps"
    using and_then_InrD by fastforce
  from and_then_InrD[OF rest] obtain b where b: "fst (contour_loop cv sh min_area cs) = Inr b"
    and ps: "ps = a @ b"
    by auto
  from contour_step_valid[OF members a] Cons.IH[OF b] ps show ?case by auto
qed

lemma fallback_valid:
  "fst (fallback sh h_img w_img) = Inr ps \<Longrightarrow> \<forall>p\<in>set ps. is_valid sh p \<and> \<not> is_empty p"
  by (auto simp: fallback_def fst_and_then fallback_poly_def fallback_points_def split: if_splits)

lemma extract_body_valid:
  assumes members: "\<forall>g gs. buffer0 sh g = Inr (MultiPolygon gs) \<and> is_valid sh (MultiPolygon gs)
              \<and> \<not> is_empty (MultiPolygon gs) \<longrightarrow> (\<forall>p\<in>set gs. is_valid sh p \<and> \<not> is_empty p)"
    and res: "fst (extract_body out cv sh pl image_path dirs min_area) = Inr ps"
  shows "\<forall>p\<in>set ps. is_valid sh p \<and> \<not> is_empty p"
proof -
  from res obtain image where im: "imread cv image_path = Inr image"
    by (auto simp: extract_body_def dest!: and_then_InrD)
  show ?thesis
  proof (cases image)
    case None
    with res im have "ps = []"
      by (cases "out image_path") (simp_all add: extract_body_def fst_and_then print_text_def)
    then show ?thesis by simp
  next
    case (Some img)
    with res im obtain contours wall_polygons where
      loop: "fst (contour_loop cv sh min_area contours) = Inr wall_polygons"
      and fin: "fst (if wall_polygons = [] then fallback sh (int (rows img)) (int (cols img))
                     else ret wall_polygons) = Inr ps"
      by (auto simp: extract_body_def dest!: and_then_InrD)
    show ?thesis
    proof (cases "wall_polygons = []")
      case True
      with fin fallback_valid show ?thesis by simp
    next
      case False
      with fin have "ps = wall_polygons" by simp
      with contour_loop_valid[OF members loop] show ?thesis by simp
    qed
  qed
qed

text \<open>
  C6. Every polygon in the list \<open>extract_polygons_from_image\<close> returns is
  valid and non-empty, as the geometry library judges it: one accepted
  directly, one produced by the zero-buffer repair, each member of a repaired
  MultiPolygon (the library returning valid, non-empty members in a valid,
  non-empty MultiPolygon) and the fallback rectangle. A polygon that stays
  invalid after the repair is not in the list.
\<close>

theorem extracted_polygons_valid:
  assumes members: "\<forall>g gs. buffer0 sh g = Inr (MultiPolygon gs) \<and> is_valid sh (MultiPolygon gs)
              \<and> \<not> is_empty (MultiPolygon gs) \<longrightarrow> (\<forall>p\<in>set gs. is_valid sh p \<and> \<not> is_empty p)"
    and res: "fst (extract_polygons_from_image out cv sh pl image_path min_area) = Inr ps"
  shows "\<forall>p\<in>set ps. is_valid sh p \<and> \<not> is_empty p"
proof -
  from res obtain dirs where dirs: "fst (loading out pl image_path) = Inr dirs"
    by (cases "fst (loading out pl image_path)") (simp_all add: extract_fst)
  show ?thesis
  proof (cases "fst (extract_body out cv sh pl image_path dirs min_area)")
    case (Inl e)
    with res dirs show ?thesis by (simp add: extract_fst)
  next
    case (Inr qs)
    with res dirs have "ps = qs" by (simp add: extract_fst)
    with extract_body_valid[OF members Inr] show ?thesis by simp
  qed
qed

lemma sample_members:
  "\<forall>g gs. buffer0 sample_shapely g = Inr (MultiPolygon gs)
      \<and> is_valid sample_shapely (MultiPolygon gs) \<and> \<not> is_empty (MultiPolygon gs)
      \<longrightarrow> (\<forall>p\<in>set gs. is_valid sample_shapely p \<and> \<not> is_empty p)"
proof (intro allI impI ballI)
  fix g gs p
  assume a: "buffer0 sample_shapely g = Inr (MultiPolygon gs)
      \<and> is_valid sample_shapely (MultiPolygon gs) \<and> \<not> is_empty (MultiPolygon gs)"
    and p: "p \<in> set gs"
  then have "case p of Polygon ps \<Rightarrow> 3 \<le> length ps \<and> distinct ps | MultiPolygon hs \<Rightarrow> False"
    by (simp add: sample_shapely_def list_all_iff)
  then show "is_valid sample_shapely p \<and> \<not> is_empty p"
    by (cases p) (auto simp: sample_shapely_def)
qed

theorem extracted_polygons_valid_witness:
  "fst (extract_polygons_from_image sample_stdout (sample_cv2 (\<lambda>path. Some (blank 40 60)) sample_contours [])
          sample_shapely sample_pathlib ''plan.png'' 20)
     = Inr [Polygon [(0, 0), (10, 0), (5, 5)], Polygon [(10, 10), (0, 10), (5, 5)],
            Polygon [(0, 0), (10, 0), (10, 10), (0, 10)]]
   \<and> list_all (\<lambda>p. is_valid sample_shapely p \<and> \<not> is_empty p)
        [Polygon [(0, 0), (10, 0), (5, 5)], Polygon [(10, 10), (0, 10), (5, 5)],
         Polygon [(0, 0), (10, 0), (10, 10), (0, 10)]]"
proof -
  have res: "fst (extract_polygons_from_image sample_stdout
                    (sample_cv2 (\<lambda>path. Some (blank 40 60)) sample_contours [])
                    sample_shapely sample_pathlib ''plan.png'' 20)
     = Inr [Polygon [(0, 0), (10, 0), (5, 5)], Polygon [(10, 10), (0, 10), (5, 5)],
            Polygon [(0, 0), (10, 0), (10, 10), (0, 10)]]"
    by (simp add: comp_eval sample_eval extraction_eval)
  show ?thesis
    using extracted_polygons_valid [OF sample_members res] res by (simp add: list_all_iff)
qed

subsection \<open>The fallback rectangle\<close>

text \<open>
  The inset is at most 10 and leaves a width and a height of at least 2;
  it is not negative once the image has two rows and two columns, and it is
  10 from 22 rows and 22 columns on.
\<close>

lemma safe_inset_bounds:
  "safe_inset h_img w_img \<le> 10
   \<and> 2 \<le> w_img - 2 * safe_inset h_img w_img \<and> 2 \<le> h_img - 2 * safe_inset h_img w_img"
  by (simp add: safe_inset_def min_def) presburger

lemma safe_inset_nonneg:
  "2 \<le> h_img \<Longrightarrow> 2 \<le> w_img \<Longrightarrow> 0 \<le> safe_inset h_img w_img"
  by (simp add: safe_inset_def) presburger

lemma safe_inset_large:
  "22 \<le> h_img \<Longrightarrow> 22 \<le> w_img \<Longrightarrow> safe_inset h_img w_img = 10"
  by (simp add: safe_inset_def min_def) presburger

text \<open>
  C5, on the code. For an image of one row the inset is -1: with no contour
  accepted, the function returns one rectangle, which for 1 row and 300
  columns goes from (-1, -1) to (301, 2) and leaves the image on every side.
\<close>

theorem fallback_rectangle_leaves_small_image:
  "safe_inset 1 1 = - 1 \<and> safe_inset 1 300 = - 1
   \<and> fst (extract_polygons_from_image sample_stdout (sample_cv2 (\<lambda>path. Some (blank 1 300)) [] [])
            sample_shapely sample_pathlib ''strip.png'' 150)
     = Inr [Polygon [(- 1, - 1), (301, - 1), (301, 2), (- 1, 2)]]"
  by (simp add: comp_eval sample_eval extraction_eval)

subsection \<open>Failures of the extraction\<close>

text \<open>
  C7, as the code has it. When the image cannot be read (\<open>imread\<close> returns
  \<open>None\<close>), \<open>extract_polygons_from_image\<close> raises no error of its own:
  once the statements before its \<open>try\<close> have returned, it prints an error
  and returns the empty list, with no further processing. (An exception of
  the statements before the \<open>try\<close> is the only other outcome.)
\<close>

theorem unreadable_image_returns_empty:
  "imread cv image_path = Inr None \<Longrightarrow>
     extract_polygons_from_image out cv sh pl image_path min_area
       = (case fst (loading out pl image_path) of
            Inr dirs \<Rightarrow> (Inr [], [InfoLoading image_path, ErrCouldNotRead image_path])
          | Inl e \<Rightarrow> (Inl e, snd (loading out pl image_path)))"
  by (cases "out image_path"; cases "Path pl image_path")
     (simp_all add: extract_polygons_from_image_def loading_def extract_body_def print_text_def
        comp_eval)

theorem unreadable_image_returns_empty_witness:
  "extract_polygons_from_image sample_stdout (sample_cv2 plan_files [] []) sample_shapely
     sample_pathlib ''scan.jpg'' 10
     = (Inr [], [InfoLoading ''scan.jpg'', ErrCouldNotRead ''scan.jpg''])"
proof -
  have unread: "imread (sample_cv2 plan_files [] []) ''scan.jpg'' = Inr None"
    by (simp add: sample_eval)
  have loaded: "fst (loading sample_stdout sample_pathlib ''scan.jpg'') = Inr (''.'', ''scan.jpg'')"
    by (simp add: loading_def comp_eval sample_eval)
  show ?thesis
    using unreadable_image_returns_empty [OF unread, of sample_stdout sample_shapely
        sample_pathlib 10] loaded
    by simp
qed

text \<open>
  C7 as stated fails: an unreadable image gives a normal return of the
  empty list, not an \<open>ImageLoadError\<close>.
\<close>

theorem image_load_error_counterexample:
  "extract_polygons_from_image sample_stdout (sample_cv2 (\<lambda>path. None) [] []) sample_shapely
     sample_pathlib ''missing.png'' 150
     = (Inr [], [InfoLoading ''missing.png'', ErrCouldNotRead ''missing.png''])
   \<and> fst (extract_polygons_from_image sample_stdout (sample_cv2 (\<lambda>path. None) [] [])
            sample_shapely sample_pathlib ''missing.png'' 150)
       \<noteq> Inl (Exception ''ImageLoadError'')"
  by (simp add: comp_eval sample_eval extraction_eval)

lemma debug_saving_fst: "fst (debug_saving out cv path img) = Inr ()"
  by (cases "imwrite cv path img"; cases "out path")
     (simp_all add: debug_saving_def comp_eval)

lemma contour_step_imwrite:
  "contour_step (cv\<lparr>imwrite := w\<rparr>) sh min_area c = contour_step cv sh min_area c"
  by (simp add: contour_step_def)

lemma contour_loop_imwrite:
  "contour_loop (cv\<lparr>imwrite := w\<rparr>) sh min_area cs = contour_loop cv sh min_area cs"
  by (induction cs) (simp_all add: contour_step_imwrite)

lemma extract_body_imwrite:
  "fst (extract_body out (cv\<lparr>imwrite := w\<rparr>) sh pl image_path dirs min_area)
     = fst (extract_body out cv sh pl image_path dirs min_area)"
  by (simp add: extract_body_def fst_and_then debug_saving_fst contour_loop_imwrite
        split: sum.splits option.splits)

text \<open>
  C10, as the code has it. \<open>extract_polygons_from_image\<close> propagates no
  exception raised inside its \<open>try\<close>, whatever the libraries do and for
  every path and \<open>min_area\<close>: once the statements before the \<open>try\<close> have
  returned, it returns a list; an exception anywhere in the body is caught,
  printed and answered with the empty list; so is an unreadable image; and a
  failure to write the debug image changes nothing in the list returned. The
  statements before the \<open>try\<close> (the print of the path and
  \<open>Path(image_path)\<close>) are not protected: their exception is propagated, and
  it is the only one.
\<close>

theorem extract_never_raises:
  "(\<forall>dirs. fst (loading out pl image_path) = Inr dirs \<longrightarrow>
       (\<exists>ps. fst (extract_polygons_from_image out cv sh pl image_path min_area) = Inr ps))
   \<and> (\<forall>e. fst (loading out pl image_path) = Inl e \<longrightarrow>
         fst (extract_polygons_from_image out cv sh pl image_path min_area) = Inl e)
   \<and> (\<forall>dirs e. fst (loading out pl image_path) = Inr dirs \<and>
         fst (extract_body out cv sh pl image_path dirs min_area) = Inl e \<longrightarrow>
         extract_polygons_from_image out cv sh pl image_path min_area
           = (Inr [], InfoLoading image_path
                        # snd (extract_body out cv sh pl image_path dirs min_area)
                        @ [ErrUnexpected e]))
   \<and> (\<forall>dirs. fst (loading out pl image_path) = Inr dirs \<and> imread cv image_path = Inr None \<longrightarrow>
         fst (extract_polygons_from_image out cv sh pl image_path min_area) = Inr [])
   \<and> fst (extract_polygons_from_image out (cv\<lparr>imwrite := w\<rparr>) sh pl image_path min_area)
       = fst (extract_polygons_from_image out cv sh pl image_path min_area)"
proof (intro conjI allI impI)
  fix dirs
  assume "fst (loading out pl image_path) = Inr dirs"
  then show "\<exists>ps. fst (extract_polygons_from_image out cv sh pl image_path min_area) = Inr ps"
    by (simp add: extract_fst)
next
  fix e
  assume "fst (loading out pl image_path) = Inl e"
  then show "fst (extract_polygons_from_image out cv sh pl image_path min_area) = Inl e"
    by (simp add: extract_fst)
next
  fix dirs e
  assume a: "fst (loading out pl image_path) = Inr dirs \<and>
         fst (extract_body out cv sh pl image_path dirs min_area) = Inl e"
  then have "snd (loading out pl image_path) = [InfoLoading image_path]"
    by (simp add: loading_printed)
  with a show "extract_polygons_from_image out cv sh pl image_path min_area
           = (Inr [], InfoLoading image_path
                        # snd (extract_body out cv sh pl image_path dirs min_area)
                        @ [ErrUnexpected e])"
    by (simp add: extract_polygons_from_image_def and_then_returns try_except_raises fst_and_then
          snd_and_then)
next
  fix dirs
  assume a: "fst (loading out pl image_path) = Inr dirs \<and> imread cv image_path = Inr None"
  then have "out image_path = None"
    by (simp add: loading_returns)
  with a show "fst (extract_polygons_from_image out cv sh pl image_path min_area) = Inr []"
    by (simp add: extract_fst extract_body_def fst_and_then print_text_def)
next
  show "fst (extract_polygons_from_image out (cv\<lparr>imwrite := w\<rparr>) sh pl image_path min_area)
       = fst (extract_polygons_from_image out cv sh pl image_path min_area)"
    by (simp add: extract_fst extract_body_imwrite split: sum.splits)
qed

theorem extract_never_raises_witness:
  "extract_polygons_from_image sample_stdout
     ((sample_cv2 plan_files sample_contours [])
        \<lparr>findContours_CCOMP_SIMPLE := (\<lambda>img. Inl (Exception ''cv2.error''))\<rparr>)
     sample_shapely sample_pathlib ''plan.png'' 150
     = (Inr [], [InfoLoading ''plan.png'', DebugSaved ''./plan.png_cleaned.png'',
                 ErrUnexpected (Exception ''cv2.error'')])
   \<and> fst (extract_polygons_from_image sample_stdout (sample_cv2 plan_files sample_contours [])
            sample_shapely sample_pathlib ''nothing.png'' 150) = Inr []
   \<and> fst (extract_polygons_from_image sample_stdout
            ((sample_cv2 plan_files sample_contours [])
               \<lparr>imwrite := (\<lambda>path img. Inl (Exception ''disk full''))\<rparr>)
            sample_shapely sample_pathlib ''plan.png'' 20)
     = Inr [Polygon [(0, 0), (10, 0), (5, 5)], Polygon [(10, 10), (0, 10), (5, 5)],
            Polygon [(0, 0), (10, 0), (10, 10), (0, 10)]]
   \<and> fst (extract_polygons_from_image narrow_stdout (sample_cv2 plan_files sample_contours [])
            sample_shapely sample_pathlib ''bad.png'' 150)
     = Inl (Exception ''UnicodeEncodeError'')"
proof -
  let ?bad = "(sample_cv2 plan_files sample_contours [])
                \<lparr>findContours_CCOMP_SIMPLE := (\<lambda>img. Inl (Exception ''cv2.error''))\<rparr>"
  have loaded: "fst (loading sample_stdout sample_pathlib ''plan.png'') = Inr (''.'', ''plan.png'')"
    "fst (loading sample_stdout sample_pathlib ''nothing.png'') = Inr (''.'', ''nothing.png'')"
    by (simp_all add: loading_def comp_eval sample_eval)
  have refused: "fst (loading narrow_stdout sample_pathlib ''bad.png'')
                   = Inl (Exception ''UnicodeEncodeError'')"
    by (simp add: loading_def comp_eval sample_eval)
  have raised: "fst (extract_body sample_stdout ?bad sample_shapely sample_pathlib ''plan.png''
                       (''.'', ''plan.png'') 150)
                  = Inl (Exception ''cv2.error'')"
    by (simp add: comp_eval sample_eval extraction_eval)
  have printed: "snd (extract_body sample_stdout ?bad sample_shapely sample_pathlib ''plan.png''
                       (''.'', ''plan.png'') 150)
                  = [DebugSaved ''./plan.png_cleaned.png'']"
    by (simp add: comp_eval sample_eval extraction_eval)
  have unread: "imread (sample_cv2 plan_files sample_contours []) ''nothing.png'' = Inr None"
    by (simp add: sample_eval)
  have written: "fst (extract_polygons_from_image sample_stdout
            (sample_cv2 plan_files sample_contours []) sample_shapely sample_pathlib ''plan.png'' 20)
     = Inr [Polygon [(0, 0), (10, 0), (5, 5)], Polygon [(10, 10), (0, 10), (5, 5)],
            Polygon [(0, 0), (10, 0), (10, 10), (0, 10)]]"
    by (simp add: comp_eval sample_eval extraction_eval)
  show ?thesis
    using extract_never_raises [of sample_stdout sample_pathlib "''plan.png''" ?bad
        sample_shapely 150]
      extract_never_raises [of sample_stdout sample_pathlib "''nothing.png''"
        "sample_cv2 plan_files sample_contours []" sample_shapely 150]
      extract_never_raises [of sample_stdout sample_pathlib "''plan.png''"
        "sample_cv2 plan_files sample_contours []" sample_shapely 20
        "\<lambda>path img. Inl (Exception ''disk full'')"]
      extract_never_raises [of narrow_stdout sample_pathlib "''bad.png''"
        "sample_cv2 plan_files sample_contours []" sample_shapely 150]
      loaded refused raised printed unread written
    by simp
qed

text \<open>
  C10 as stated fails: for a path the standard output cannot encode, the
  print before the \<open>try\<close> raises and the exception leaves the function,
  with nothing returned.
\<close>

theorem unprintable_path_counterexample:
  "extract_polygons_from_image narrow_stdout (sample_cv2 plan_files sample_contours [])
     sample_shapely sample_pathlib ''bad.png'' 150
     = (Inl (Exception ''UnicodeEncodeError''), [])"
  by (simp add: comp_eval sample_eval extraction_eval)

section \<open>The opening detector\<close>

text \<open>
  The exception \<open>find_features\<close> propagates, if any, is the one of the
  statement before its \<open>try\<close>; otherwise it returns the list of its body,
  or the empty list when the body raises.
\<close>

lemma find_features_fst:
  "fst (find_features out cv sh pl image_path template_path threshold) =
     (case fst (matching out pl template_path) of
        Inl e \<Rightarrow> Inl e
      | Inr u \<Rightarrow>
          Inr (case fst (find_features_body out cv sh pl image_path template_path threshold) of
                 Inl e \<Rightarrow> [] | Inr ps \<Rightarrow> ps))"
  by (simp add: find_features_def fst_and_then fst_try_except split: sum.splits)

lemma matching_returns:
  "fst (matching out pl template_path) = Inr u \<longleftrightarrow>
     (\<exists>p. Path pl template_path = Inr p \<and> out (path_name pl p) = None)"
  by (cases "Path pl template_path")
     (auto simp: matching_def print_text_def comp_eval split: option.splits)

lemma find_features_body_undecoded:
  "imread_GRAYSCALE cv image_path = Inr None \<or> imread_GRAYSCALE cv template_path = Inr None \<Longrightarrow>
     (case fst (find_features_body out cv sh pl image_path template_path threshold) of
        Inl e \<Rightarrow> [] | Inr ps \<Rightarrow> ps) = []"
  by (cases "imread_GRAYSCALE cv image_path"; cases "imread_GRAYSCALE cv template_path")
     (auto simp: find_features_body_def print_text_def comp_eval split: option.splits)

text \<open>
  C8, as the code has it. \<open>find_features\<close> raises no \<open>TemplateLoadError\<close>
  and propagates no exception raised inside its \<open>try\<close>. Once the print
  before the \<open>try\<close> has returned, it returns a list: the empty list when
  the source image or the template fails to decode (after an error line
  naming the path, if the path can be printed), and the empty list as well
  when no location reaches the threshold, after reporting zero matches. The
  print before the \<open>try\<close> is not protected: its exception is propagated,
  and it is the only one.
\<close>

theorem find_features_never_raises:
  "(fst (matching out pl template_path) = Inr () \<longrightarrow>
      (\<exists>ps. fst (find_features out cv sh pl image_path template_path threshold) = Inr ps))
   \<and> (\<forall>e. fst (matching out pl template_path) = Inl e \<longrightarrow>
         fst (find_features out cv sh pl image_path template_path threshold) = Inl e)
   \<and> (fst (matching out pl template_path) = Inr () \<and>
        (imread_GRAYSCALE cv image_path = Inr None \<or> imread_GRAYSCALE cv template_path = Inr None)
        \<longrightarrow> fst (find_features out cv sh pl image_path template_path threshold) = Inr [])
   \<and> (\<forall>p. Path pl template_path = Inr p \<and> out (path_name pl p) = None \<and> out image_path = None \<and>
        imread_GRAYSCALE cv image_path = Inr None \<and>
        (\<exists>t. imread_GRAYSCALE cv template_path = Inr t) \<longrightarrow>
        find_features out cv sh pl image_path template_path threshold
          = (Inr [], [InfoMatching (path_name pl p), ErrReadMain image_path]))
   \<and> (\<forall>p. Path pl template_path = Inr p \<and> out (path_name pl p) = None \<and>
        out template_path = None \<and>
        (\<exists>img. imread_GRAYSCALE cv image_path = Inr (Some img)) \<and>
        imread_GRAYSCALE cv template_path = Inr None \<longrightarrow>
        find_features out cv sh pl image_path template_path threshold
          = (Inr [], [InfoMatching (path_name pl p), ErrReadTemplate template_path]))
   \<and> (\<forall>p img tpl res. Path pl template_path = Inr p \<and> out (path_name pl p) = None \<and>
        imread_GRAYSCALE cv image_path = Inr (Some img) \<and>
        imread_GRAYSCALE cv template_path = Inr (Some tpl) \<and>
        matchTemplate_CCOEFF_NORMED cv img tpl = Inr res \<and> match_locations res threshold = [] \<longrightarrow>
        find_features out cv sh pl image_path template_path threshold
          = (Inr [], [InfoMatching (path_name pl p), InfoFoundMatches 0 (path_name pl p)]))"
proof (intro conjI)
  show "fst (matching out pl template_path) = Inr () \<longrightarrow>
      (\<exists>ps. fst (find_features out cv sh pl image_path template_path threshold) = Inr ps)"
    by (simp add: find_features_fst)
  show "\<forall>e. fst (matching out pl template_path) = Inl e \<longrightarrow>
         fst (find_features out cv sh pl image_path template_path threshold) = Inl e"
    by (simp add: find_features_fst)
  show "fst (matching out pl template_path) = Inr () \<and>
        (imread_GRAYSCALE cv image_path = Inr None \<or> imread_GRAYSCALE cv template_path = Inr None)
        \<longrightarrow> fst (find_features out cv sh pl image_path template_path threshold) = Inr []"
    using find_features_body_undecoded [of cv image_path template_path out sh pl threshold]
    by (auto simp: find_features_fst)
qed (auto simp: find_features_def matching_def find_features_body_def print_text_def comp_eval)

theorem find_features_never_raises_witness:
  "find_features sample_stdout (sample_cv2 plan_files [] door_scores) sample_shapely sample_pathlib
     ''plan.png'' ''window_template.png'' 0.7
     = (Inr [], [InfoMatching ''window_template.png'', ErrReadTemplate ''window_template.png''])
   \<and> find_features sample_stdout (sample_cv2 plan_files [] door_scores) sample_shapely
       sample_pathlib ''lost.png'' ''door_template.png'' 0.7
     = (Inr [], [InfoMatching ''door_template.png'', ErrReadMain ''lost.png''])
   \<and> find_features sample_stdout (sample_cv2 plan_files [] door_scores) sample_shapely
       sample_pathlib ''plan.png'' ''door_template.png'' 0.95
     = (Inr [], [InfoMatching ''door_template.png'', InfoFoundMatches 0 ''door_template.png''])
   \<and> fst (find_features narrow_stdout (sample_cv2 plan_files [] door_scores) sample_shapely
            sample_pathlib ''bad.png'' ''door_template.png'' 0.7) = Inr []
   \<and> fst (find_features narrow_stdout (sample_cv2 plan_files [] door_scores) sample_shapely
            sample_pathlib ''plan.png'' ''bad.png'' 0.7) = Inl (Exception ''UnicodeEncodeError'')"
proof -
  let ?cv = "sample_cv2 plan_files [] door_scores"
  have plan: "imread_GRAYSCALE ?cv ''plan.png'' = Inr (Some (blank 4 6))"
    and door: "imread_GRAYSCALE ?cv ''door_template.png'' = Inr (Some (blank 2 3))"
    and window: "imread_GRAYSCALE ?cv ''window_template.png'' = Inr None"
    and lost: "imread_GRAYSCALE ?cv ''lost.png'' = Inr None"
    and bad: "imread_GRAYSCALE ?cv ''bad.png'' = Inr None"
    and scores: "matchTemplate_CCOEFF_NORMED ?cv (blank 4 6) (blank 2 3) = Inr door_scores"
    by (simp_all add: sample_cv2_def plan_files_def)
  have paths: "Path sample_pathlib ''window_template.png'' = Inr ''window_template.png''"
    "Path sample_pathlib ''door_template.png'' = Inr ''door_template.png''"
    "path_name sample_pathlib ''window_template.png'' = ''window_template.png''"
    "path_name sample_pathlib ''door_template.png'' = ''door_template.png''"
    by (simp_all add: sample_pathlib_def)
  have printed: "fst (matching narrow_stdout sample_pathlib ''door_template.png'') = Inr ()"
    and refused: "fst (matching narrow_stdout sample_pathlib ''bad.png'')
                    = Inl (Exception ''UnicodeEncodeError'')"
    by (simp_all add: matching_def comp_eval sample_eval)
  have none: "match_locations door_scores 0.95 = []"
    by (simp add: match_locations_def np_where_ge_def door_scores_def upt_conv_Cons)
  show ?thesis
    using find_features_never_raises [of sample_stdout sample_pathlib "''window_template.png''"
        ?cv sample_shapely "''plan.png''" "0.7"]
      find_features_never_raises [of sample_stdout sample_pathlib "''door_template.png''"
        ?cv sample_shapely "''lost.png''" "0.7"]
      find_features_never_raises [of sample_stdout sample_pathlib "''door_template.png''"
        ?cv sample_shapely "''plan.png''" "0.95"]
      find_features_never_raises [of narrow_stdout sample_pathlib "''door_template.png''"
        ?cv sample_shapely "''bad.png''" "0.7"]
      find_features_never_raises [of narrow_stdout sample_pathlib "''bad.png''"
        ?cv sample_shapely "''plan.png''" "0.7"]
      plan door window lost bad scores paths printed refused none
    by (simp add: sample_stdout_def)
qed

text \<open>
  C8 as stated fails: with an image or a template that does not decode the
  call returns the empty list, as it does for zero matches, and raises no
  \<open>TemplateLoadError\<close>; and with both decoded it can still raise, from the
  print before its \<open>try\<close>, for a template name the standard output
  cannot encode.
\<close>

theorem template_load_error_counterexample:
  "find_features sample_stdout (sample_cv2 (\<lambda>path. None) [] []) sample_shapely sample_pathlib
      ''plan.png'' ''door_template.png'' 0.7
     = (Inr [], [InfoMatching ''door_template.png'', ErrReadMain ''plan.png''])
   \<and> find_features sample_stdout
        (sample_cv2 (\<lambda>path. if path = ''plan.png'' then Some (blank 4 6) else None) [] [])
        sample_shapely sample_pathlib ''plan.png'' ''door_template.png'' 0.7
     = (Inr [], [InfoMatching ''door_template.png'', ErrReadTemplate ''door_template.png''])
   \<and> fst (find_features sample_stdout (sample_cv2 (\<lambda>path. None) [] []) sample_shapely
            sample_pathlib ''plan.png'' ''door_template.png'' 0.7)
       \<noteq> Inl (Exception ''TemplateLoadError'')
   \<and> find_features narrow_stdout (sample_cv2 (\<lambda>path. Some (blank 4 6)) [] door_scores)
        sample_shapely sample_pathlib ''plan.png'' ''bad.png'' 0.7
     = (Inl (Exception ''UnicodeEncodeError''), [])"
  by (simp add: comp_eval sample_eval extraction_eval)

subsection \<open>One rectangle per match location\<close>

lemma match_rectangle_corners:
  "match_rectangle w h (x, y) =
     Polygon [(real_of_int x, real_of_int y), (real_of_int (x + w), real_of_int y),
              (real_of_int (x + w), real_of_int (y + h)), (real_of_int x, real_of_int (y + h))]"
  by (simp add: match_rectangle_def to_point_def Let_def)

lemma match_rectangle_not_empty [simp]: "\<not> is_empty (match_rectangle w h pt)"
  by (simp add: match_rectangle_def Let_def)

lemma feature_loop_filter:
  "feature_loop sh w h pts = filter (is_valid sh) (map (match_rectangle w h) pts)"
  by (induction pts) simp_all

lemma feature_loop_all_valid:
  "\<forall>pt\<in>set pts. is_valid sh (match_rectangle w h pt) \<Longrightarrow>
     feature_loop sh w h pts = map (match_rectangle w h) pts"
  by (induction pts) simp_all

lemma set_np_where_ge:
  "set (np_where_ge res threshold) =
     {(r, c). r < length res \<and> c < length (res ! r) \<and> threshold \<le> res ! r ! c}"
  by (auto simp: np_where_ge_def)

lemma distinct_rows:
  "distinct (concat (map (\<lambda>r. map (\<lambda>c. (r, c)) (filter (P r) [0..<m r])) [0..<n]))"
proof (induction n)
  case 0
  show ?case by simp
next
  case (Suc n)
  have "distinct (map (\<lambda>c. (n, c)) (filter (P n) [0..<m n]))"
    by (simp add: distinct_map inj_on_def)
  with Suc show ?case by auto
qed

lemma distinct_np_where_ge: "distinct (np_where_ge res threshold)"
  unfolding np_where_ge_def by (rule distinct_rows)

lemma distinct_match_locations: "distinct (match_locations res threshold)"
  unfolding match_locations_def
  by (auto simp: distinct_map distinct_np_where_ge inj_on_def)

lemma set_match_locations:
  "set (match_locations res threshold) =
     {(int c, int r) | r c. r < length res \<and> c < length (res ! r) \<and> threshold \<le> res ! r ! c}"
  by (auto simp: match_locations_def set_np_where_ge)

text \<open>
  C9. With both images decoded and the scores computed, the output of
  \<open>find_features\<close> is the list of the rectangles of the match locations,
  one per location and in their order: the locations are exactly the
  (column, row) positions whose score meets or exceeds the threshold, each
  listed once, and the rectangle of a location (x, y) has the corners (x, y),
  (x + w, y), (x + w, y + h), (x, y + h) for the template's width w and
  height h. Nothing is removed: rectangles that overlap are all in the list.
  The geometry library is taken to judge each such rectangle valid. (The
  function has no output only when the print before its \<open>try\<close> raises.)
\<close>

theorem template_match_rectangles:
  assumes img: "imread_GRAYSCALE cv image_path = Inr (Some img)"
    and tpl: "imread_GRAYSCALE cv template_path = Inr (Some tpl)"
    and res: "matchTemplate_CCOEFF_NORMED cv img tpl = Inr res"
    and valid: "\<forall>pt\<in>set (match_locations res threshold).
                  is_valid sh (match_rectangle (int (cols tpl)) (int (rows tpl)) pt)"
  shows "fst (find_features out cv sh pl image_path template_path threshold)
           = (case fst (matching out pl template_path) of
                Inr u \<Rightarrow> Inr (map (match_rectangle (int (cols tpl)) (int (rows tpl)))
                                  (match_locations res threshold))
              | Inl e \<Rightarrow> Inl e)
     \<and> distinct (match_locations res threshold)
     \<and> set (match_locations res threshold) =
         {(int c, int r) | r c. r < length res \<and> c < length (res ! r) \<and> threshold \<le> res ! r ! c}
     \<and> (\<forall>x y. match_rectangle (int (cols tpl)) (int (rows tpl)) (x, y) =
           Polygon [(real_of_int x, real_of_int y),
                    (real_of_int (x + int (cols tpl)), real_of_int y),
                    (real_of_int (x + int (cols tpl)), real_of_int (y + int (rows tpl))),
                    (real_of_int x, real_of_int (y + int (rows tpl)))])"
proof (intro conjI allI)
  show "fst (find_features out cv sh pl image_path template_path threshold)
           = (case fst (matching out pl template_path) of
                Inr u \<Rightarrow> Inr (map (match_rectangle (int (cols tpl)) (int (rows tpl)))
                                  (match_locations res threshold))
              | Inl e \<Rightarrow> Inl e)"
  proof (cases "fst (matching out pl template_path)")
    case (Inl e)
    then show ?thesis by (simp add: find_features_fst)
  next
    case (Inr u)
    then obtain p where p: "Path pl template_path = Inr p" "out (path_name pl p) = None"
      using matching_returns by blast
    with Inr img tpl res feature_loop_all_valid[OF valid] show ?thesis
      by (simp add: find_features_fst find_features_body_def fst_and_then print_text_def)
  qed
qed (simp_all add: distinct_match_locations set_match_locations match_rectangle_corners)

theorem template_match_rectangles_witness:
  "match_locations door_scores 0.7 = [(1, 0), (2, 0), (0, 1), (3, 1)]
   \<and> fst (find_features sample_stdout (sample_cv2 plan_files [] door_scores) sample_shapely
            sample_pathlib ''plan.png'' ''door_template.png'' 0.7)
     = Inr [Polygon [(1, 0), (4, 0), (4, 2), (1, 2)], Polygon [(2, 0), (5, 0), (5, 2), (2, 2)],
            Polygon [(0, 1), (3, 1), (3, 3), (0, 3)], Polygon [(3, 1), (6, 1), (6, 3), (3, 3)]]"
proof -
  let ?cv = "sample_cv2 plan_files [] door_scores"
  have plan: "imread_GRAYSCALE ?cv ''plan.png'' = Inr (Some (blank 4 6))"
    and door: "imread_GRAYSCALE ?cv ''door_template.png'' = Inr (Some (blank 2 3))"
    and scores: "matchTemplate_CCOEFF_NORMED ?cv (blank 4 6) (blank 2 3) = Inr door_scores"
    by (simp_all add: sample_cv2_def plan_files_def)
  have printed: "fst (matching sample_stdout sample_pathlib ''door_template.png'') = Inr ()"
    by (simp add: matching_def comp_eval sample_eval)
  have locs: "match_locations door_scores 0.7 = [(1, 0), (2, 0), (0, 1), (3, 1)]"
    by (simp add: match_locations_def np_where_ge_def door_scores_def upt_conv_Cons)
  have valid: "\<forall>pt\<in>set (match_locations door_scores 0.7).
                 is_valid sample_shapely
                   (match_rectangle (int (cols (blank 2 3))) (int (rows (blank 2 3))) pt)"
    by (simp add: locs sample_shapely_def blank_def match_rectangle_def to_point_def Let_def)
  show ?thesis
    using template_match_rectangles [OF plan door scores valid, of sample_stdout sample_pathlib]
      locs printed
    by (simp add: blank_def match_rectangle_def to_point_def Let_def)
qed

section \<open>Further properties of the pipeline\<close>

text \<open>
  \<open>build_3d_model\<close> returns a mesh whatever the extrusion and the boolean
  difference do: an exception of either is caught inside the function.
\<close>

theorem build_3d_model_never_raises:
  "\<exists>m. fst (build_3d_model sh tm wall_polygons door_polygons window_polygons
               wall_height wall_thickness_pixels) = Inr m"
  by (rule build_3d_model_returns)

text \<open>
  When no wall mesh could be built, \<open>build_3d_model\<close> prints its error
  last and returns the empty mesh, not rescaled and without looking at the
  doors and windows.
\<close>

theorem no_wall_meshes_empty_mesh:
  assumes "fst (wall_meshes sh tm wall_polygons wall_height wtp) = Inr []"
  shows "build_3d_model sh tm wall_polygons door_polygons window_polygons wall_height wtp
           = (Inr Trimesh,
              snd (scaling_logic wtp) @ snd (wall_meshes sh tm wall_polygons wall_height wtp)
                @ [ErrNoWallMeshes])
         \<and> mesh_is_empty Trimesh"
  unfolding build_3d_model_def
  by (simp add: and_then_returns[OF scaling_logic_returns] and_then_returns[OF assms]
        fst_and_then snd_and_then mesh_is_empty_def Trimesh_def)

theorem no_wall_meshes_empty_mesh_witness:
  "build_3d_model sample_shapely sample_trimesh [Polygon [(0, 0), (1, 1)], Polygon []]
     [door_rectangle] [] 3 0
     = (Inr Trimesh, [WarnThicknessZero, WarnSkipWall, WarnSkipWall, ErrNoWallMeshes])
   \<and> mesh_is_empty Trimesh"
proof -
  have none: "fst (wall_meshes sample_shapely sample_trimesh [Polygon [(0, 0), (1, 1)], Polygon []]
                     3 0) = Inr []"
    by (simp add: comp_eval geometry_eval sample_eval)
  have printed: "snd (scaling_logic 0)
      @ snd (wall_meshes sample_shapely sample_trimesh [Polygon [(0, 0), (1, 1)], Polygon []] 3 0)
      = [WarnThicknessZero, WarnSkipWall, WarnSkipWall]"
    by (simp add: comp_eval geometry_eval sample_eval)
  show ?thesis
    using no_wall_meshes_empty_mesh [OF none, of "[door_rectangle]" "[]"] printed by simp
qed

text \<open>
  Without any opening mesh nothing is subtracted: the model returned is the
  concatenated wall mesh, rescaled to meters.
\<close>

theorem no_openings_no_subtraction:
  assumes "fst (wall_meshes sh tm wall_polygons wall_height wtp) = Inr ws" "ws \<noteq> []"
    and "fst (opening_meshes sh tm door_polygons window_polygons wtp) = Inr []"
  shows "fst (build_3d_model sh tm wall_polygons door_polygons window_polygons wall_height wtp)
           = Inr (scale_to_meters wtp (concatenate ws))"
  using assms(2) by (simp add: build_3d_model_fst[OF assms(1) assms(3)])

theorem no_openings_no_subtraction_witness:
  "fst (build_3d_model sample_shapely
          (sample_trimesh\<lparr>difference := (\<lambda>a b. Inl (Exception ''boolean engine failed''))\<rparr>)
          [square] [] [] 3 5)
     = Inr (scale_to_meters 5 (concatenate [prism square 75]))"
proof -
  let ?tm = "sample_trimesh\<lparr>difference := (\<lambda>a b. Inl (Exception ''boolean engine failed''))\<rparr>"
  have ws: "fst (wall_meshes sample_shapely ?tm [square] 3 5) = Inr [prism square 75]"
    by (simp add: sample_wall) (simp add: sample_trimesh_def)
  have os: "fst (opening_meshes sample_shapely ?tm [] [] 5) = Inr []"
    by (simp add: comp_eval geometry_eval)
  show ?thesis
    using no_openings_no_subtraction [OF ws _ os] by simp
qed

text \<open>
  The fallback rectangle: its inset is at most 10 pixels, and its width and
  its height are at least 2 for an image of any shape.
\<close>

theorem fallback_rectangle_size:
  "safe_inset h_img w_img \<le> 10
   \<and> fallback_points h_img w_img =
       [(safe_inset h_img w_img, safe_inset h_img w_img),
        (w_img - safe_inset h_img w_img, safe_inset h_img w_img),
        (w_img - safe_inset h_img w_img, h_img - safe_inset h_img w_img),
        (safe_inset h_img w_img, h_img - safe_inset h_img w_img)]
   \<and> 2 \<le> (w_img - safe_inset h_img w_img) - safe_inset h_img w_img
   \<and> 2 \<le> (h_img - safe_inset h_img w_img) - safe_inset h_img w_img"
  using safe_inset_bounds [of h_img w_img] by (simp add: fallback_points_def)

text \<open>
  When the statements before the \<open>try\<close> return, the image is read, the
  vision operations succeed, no contour yields a polygon and the geometry library judges the fallback rectangle valid, the
  function returns exactly that one rectangle; from two rows and two columns
  on its inset is not negative, so it stays within the image.
\<close>

theorem fallback_rectangle_returned:
  assumes "fst (loading out pl image_path) = Inr dirs"
    and "imread cv image_path = Inr (Some img)"
    and "cvtColor_BGR2GRAY cv img = Inr gray"
    and "adaptiveThreshold_GAUSSIAN_BINARY_INV cv gray 255 11 2 = Inr thresh"
    and "morphologyEx_OPEN cv thresh 3 1 = Inr cleaned_image"
    and "findContours_CCOMP_SIMPLE cv cleaned_image = Inr contours"
    and "fst (contour_loop cv sh min_area contours) = Inr []"
    and "is_valid sh (fallback_poly (int (rows img)) (int (cols img)))"
  shows "fst (extract_polygons_from_image out cv sh pl image_path min_area)
           = Inr [fallback_poly (int (rows img)) (int (cols img))]
         \<and> (2 \<le> rows img \<and> 2 \<le> cols img \<longrightarrow>
              0 \<le> safe_inset (int (rows img)) (int (cols img)))"
proof
  show "fst (extract_polygons_from_image out cv sh pl image_path min_area)
           = Inr [fallback_poly (int (rows img)) (int (cols img))]"
    using assms
    by (simp add: extract_fst extract_body_def fst_and_then debug_saving_fst fallback_def)
  show "2 \<le> rows img \<and> 2 \<le> cols img \<longrightarrow> 0 \<le> safe_inset (int (rows img)) (int (cols img))"
    using safe_inset_nonneg [of "int (rows img)" "int (cols img)"] by simp
qed

theorem fallback_rectangle_returned_witness:
  "fst (extract_polygons_from_image sample_stdout
          (sample_cv2 (\<lambda>path. Some (blank 100 200)) [] [])
          sample_shapely sample_pathlib ''black.png'' 150)
     = Inr [Polygon [(10, 10), (190, 10), (190, 90), (10, 90)]]
   \<and> 0 \<le> safe_inset 100 200"
proof -
  let ?cv = "sample_cv2 (\<lambda>path. Some (blank 100 200)) [] []"
  have loaded: "fst (loading sample_stdout sample_pathlib ''black.png'') = Inr (''.'', ''black.png'')"
    by (simp add: loading_def comp_eval sample_eval)
  have ops: "imread ?cv ''black.png'' = Inr (Some (blank 100 200))"
    "cvtColor_BGR2GRAY ?cv (blank 100 200) = Inr (blank 100 200)"
    "adaptiveThreshold_GAUSSIAN_BINARY_INV ?cv (blank 100 200) 255 11 2 = Inr (blank 100 200)"
    "morphologyEx_OPEN ?cv (blank 100 200) 3 1 = Inr (blank 100 200)"
    "findContours_CCOMP_SIMPLE ?cv (blank 100 200) = Inr []"
    by (simp_all add: sample_cv2_def)
  have loop: "fst (contour_loop ?cv sample_shapely 150 []) = Inr []"
    by simp
  have poly: "fallback_poly (int (rows (blank 100 200))) (int (cols (blank 100 200)))
                = Polygon [(10, 10), (190, 10), (190, 90), (10, 90)]"
    by (simp add: fallback_poly_def fallback_points_def safe_inset_def to_point_def blank_def)
  have valid: "is_valid sample_shapely
                 (fallback_poly (int (rows (blank 100 200))) (int (cols (blank 100 200))))"
    by (simp add: poly sample_shapely_def)
  show ?thesis
    using fallback_rectangle_returned [OF loaded ops loop valid] poly
    by (simp add: blank_def)
qed

lemma extract_printable:
  "fst (extract_polygons_from_image out cv sh pl image_path min_area) = Inr ps \<Longrightarrow>
     out image_path = None"
  by (cases "fst (loading out pl image_path)") (simp_all add: extract_fst loading_returns)

text \<open>
  When the upload is saved, the path of its name is built and the
  extraction returns no polygon, the request is answered with status 400 and
  "No wall features detected".
\<close>

theorem no_wall_features_response:
  assumes "save_upload srv (path_join pl (UPLOAD_DIR srv) filename) = Inr ()"
    and "Path pl filename = Inr p"
    and "fst (extract_polygons_from_image out cv sh pl (path_join pl (UPLOAD_DIR srv) filename)
                150) = Inr []"
  shows "fst (convert_blueprint_to_3d out srv pl cv sh tm filename wall_height wall_thickness)
           = Inr \<lparr>status_code = 400, success = False,
                  content = ErrorMessage
                    ''No wall features detected. Check image contrast/threshold.''\<rparr>"
  using assms extract_printable[OF assms(3)]
  by (simp add: convert_blueprint_to_3d_def conversion_def Let_def fst_and_then fst_try_except
        print_text_def)

theorem no_wall_features_response_witness:
  "fst (convert_blueprint_to_3d sample_stdout sample_server sample_pathlib
          (sample_cv2 (\<lambda>path. None) [] []) sample_shapely sample_trimesh ''plan.png'' 3 5)
     = Inr \<lparr>status_code = 400, success = False,
            content = ErrorMessage
              ''No wall features detected. Check image contrast/threshold.''\<rparr>"
proof -
  have saved: "save_upload sample_server
                 (path_join sample_pathlib (UPLOAD_DIR sample_server) ''plan.png'') = Inr ()"
    by (simp add: sample_server_def)
  have built: "Path sample_pathlib ''plan.png'' = Inr ''plan.png''"
    by (simp add: sample_pathlib_def)
  have no_polygons: "fst (extract_polygons_from_image sample_stdout
                   (sample_cv2 (\<lambda>path. None) [] []) sample_shapely sample_pathlib
                   (path_join sample_pathlib (UPLOAD_DIR sample_server) ''plan.png'') 150) = Inr []"
    by (simp add: comp_eval sample_eval extraction_eval)
  show ?thesis
    by (rule no_wall_features_response [OF saved built no_polygons])
qed

end
